theory Spec2Isabelle
  imports Complex_Main "HOL-Library.Word"
begin

section \<open>Strings and values of the host language\<close>

text \<open>
  A TypeScript string is a sequence of UTF-16 code units. Literals of the source are
  written \<open>lit ''...''\<close>.
\<close>

type_synonym jsstring = "16 word list"

definition lit :: "string \<Rightarrow> jsstring" where
  "lit s = map of_char s"

text \<open>
  \<open>String.prototype.trim\<close> removes the code units of the WhiteSpace and
  LineTerminator productions from both ends.
\<close>

definition isWhiteSpace :: "16 word \<Rightarrow> bool" where
  "isWhiteSpace c =
     (c \<in> set [0x9, 0xA, 0xB, 0xC, 0xD, 0x20, 0xA0, 0x1680, 0x2028, 0x2029, 0x202F,
                0x205F, 0x3000, 0xFEFF]
      \<or> (0x2000 \<le> c \<and> c \<le> 0x200A))"

definition trim :: "jsstring \<Rightarrow> jsstring" where
  "trim s = rev (dropWhile isWhiteSpace (rev (dropWhile isWhiteSpace s)))"

text \<open>
  An optional string (\<open>string | undefined\<close>) is a \<open>jsstring option\<close>. It is truthy
  when it is defined and not empty; \<open>a || b\<close> is \<open>a\<close> when \<open>a\<close> is truthy and \<open>b\<close>
  otherwise.
\<close>

definition truthy :: "jsstring option \<Rightarrow> bool" where
  "truthy v = (case v of None \<Rightarrow> False | Some s \<Rightarrow> s \<noteq> [])"

definition lor :: "jsstring option \<Rightarrow> jsstring option \<Rightarrow> jsstring option" where
  "lor a b = (if truthy a then a else b)"

definition lor_str :: "jsstring option \<Rightarrow> jsstring \<Rightarrow> jsstring" where
  "lor_str a d = (if truthy a then the a else d)"

text \<open>Errors thrown by the libraries and by the language itself.\<close>

datatype error_kind =
  TransportError | ContractRevert | ModelError | SyntaxError | TypeError | ZodError
  | InvalidKey

datatype error = Error (kind: error_kind) (message: jsstring)

section \<open>TopicKeyDeriver (\<open>topicHash\<close>)\<close>

type_synonym bytes = "8 word list"

type_synonym hash = "256 word"

text \<open>
  \<open>stringToBytes\<close> (viem) is \<open>TextEncoder.encode\<close>: the code units are read as
  UTF-16, a surrogate that is not part of a pair becomes U+FFFD, and every code point
  is written in UTF-8.
\<close>

definition isHighSurrogate :: "16 word \<Rightarrow> bool" where
  "isHighSurrogate c = (0xD800 \<le> c \<and> c \<le> 0xDBFF)"

definition isLowSurrogate :: "16 word \<Rightarrow> bool" where
  "isLowSurrogate c = (0xDC00 \<le> c \<and> c \<le> 0xDFFF)"

definition scalar :: "16 word \<Rightarrow> nat" where
  "scalar c = (if isHighSurrogate c \<or> isLowSurrogate c then 0xFFFD else unat c)"

fun code_points :: "jsstring \<Rightarrow> nat list" where
  "code_points [] = []"
| "code_points [c] = [scalar c]"
| "code_points (c # d # cs) =
     (if isHighSurrogate c \<and> isLowSurrogate d
      then (0x10000 + (unat c - 0xD800) * 0x400 + (unat d - 0xDC00)) # code_points cs
      else scalar c # code_points (d # cs))"

definition utf8 :: "nat \<Rightarrow> bytes" where
  "utf8 cp =
     (if cp < 0x80 then [of_nat cp]
      else if cp < 0x800 then [of_nat (0xC0 + cp div 0x40), of_nat (0x80 + cp mod 0x40)]
      else if cp < 0x10000
      then [of_nat (0xE0 + cp div 0x1000), of_nat (0x80 + cp div 0x40 mod 0x40),
            of_nat (0x80 + cp mod 0x40)]
      else [of_nat (0xF0 + cp div 0x40000), of_nat (0x80 + cp div 0x1000 mod 0x40),
            of_nat (0x80 + cp div 0x40 mod 0x40), of_nat (0x80 + cp mod 0x40)])"

definition stringToBytes :: "jsstring \<Rightarrow> bytes" where
  "stringToBytes s = concat (map utf8 (code_points s))"

text \<open>
  \<open>function topicHash(topic) { return keccak256(stringToBytes(topic)); }\<close>, the same
  in agent-app, agent-2 and the HTTP service. \<open>keccak256\<close> (viem) is a parameter: a
  function from byte sequences to 32-byte values (viem returns the 32 bytes as a
  hexadecimal string).
\<close>

definition topicHash :: "(bytes \<Rightarrow> hash) \<Rightarrow> jsstring \<Rightarrow> hash" where
  "topicHash keccak256 topic = keccak256 (stringToBytes topic)"

definition isAscii :: "16 word \<Rightarrow> bool" where
  "isAscii c = (c < 0x80)"

section \<open>Configuration (agent-app and agent-2, \<open>getEnv\<close> and \<open>initialize\<close>)\<close>

record Env =
  ANTHROPIC_API_KEY :: "jsstring option"
  OPENAI_API_KEY :: "jsstring option"
  RPC_URL :: "jsstring option"
  MEMORY_VAULT_ADDRESS :: "jsstring option"
  USER_ADDRESS :: "jsstring option"
  AGENT_PRIVATE_KEY :: "jsstring option"
  AI_PROVIDER :: "jsstring option"
  MODEL_ID :: "jsstring option"

text \<open>\<open>env?.X\<close> for the optional argument \<open>env\<close>.\<close>

definition opt_field :: "Env option \<Rightarrow> (Env \<Rightarrow> jsstring option) \<Rightarrow> jsstring option" where
  "opt_field env f = (case env of None \<Rightarrow> None | Some e \<Rightarrow> f e)"

text \<open>\<open>const safe = (v?: string) => (v?.trim() ? v.trim() : undefined)\<close>\<close>

definition safe :: "jsstring option \<Rightarrow> jsstring option" where
  "safe v = (case v of None \<Rightarrow> None
             | Some s \<Rightarrow> if truthy (Some (trim s)) then Some (trim s) else None)"

record Config =
  cfg_ANTHROPIC_API_KEY :: jsstring
  cfg_RPC_URL :: jsstring
  cfg_MEMORY_VAULT_ADDRESS :: "jsstring option"
  cfg_USER_ADDRESS :: "jsstring option"
  cfg_AGENT_PRIVATE_KEY :: jsstring
  cfg_MODEL_ID :: jsstring

text \<open>
  \<open>getEnv\<close> of agent-app. The result of \<open>loadWranglerVars()\<close> (the \<open>vars\<close> object
  of wrangler.jsonc, or the empty object when the file cannot be read) and
  \<open>process.env\<close> are passed in.
\<close>

definition getEnv :: "Env option \<Rightarrow> Env \<Rightarrow> Env \<Rightarrow> Config" where
  "getEnv env vars penv =
     \<lparr> cfg_ANTHROPIC_API_KEY =
         lor_str (lor (lor (safe (opt_field env ANTHROPIC_API_KEY)) (safe (ANTHROPIC_API_KEY vars)))
                      (safe (ANTHROPIC_API_KEY penv))) (lit ''''),
       cfg_RPC_URL =
         lor_str (lor (lor (safe (opt_field env RPC_URL)) (safe (RPC_URL vars)))
                      (safe (RPC_URL penv))) (lit ''''),
       cfg_MEMORY_VAULT_ADDRESS =
         lor (lor (safe (opt_field env MEMORY_VAULT_ADDRESS)) (safe (MEMORY_VAULT_ADDRESS vars)))
             (safe (MEMORY_VAULT_ADDRESS penv)),
       cfg_USER_ADDRESS =
         lor (lor (safe (opt_field env USER_ADDRESS)) (safe (USER_ADDRESS vars)))
             (safe (USER_ADDRESS penv)),
       cfg_AGENT_PRIVATE_KEY =
         lor_str (lor (lor (safe (opt_field env AGENT_PRIVATE_KEY)) (safe (AGENT_PRIVATE_KEY vars)))
                      (safe (AGENT_PRIVATE_KEY penv))) (lit ''''),
       cfg_MODEL_ID =
         lor_str (lor (lor (safe (opt_field env MODEL_ID)) (safe (MODEL_ID vars)))
                      (safe (MODEL_ID penv))) (lit ''claude-3-5-sonnet-20241022'') \<rparr>"

text \<open>
  \<open>getEnv\<close> of agent-2: the same resolution without \<open>AGENT_PRIVATE_KEY\<close> and with
  another default model. Its interface \<open>Env\<close> has five of the eight variables of
  agent-app; the record \<open>Env\<close> serves both.
\<close>

record Config2 =
  cfg2_ANTHROPIC_API_KEY :: jsstring
  cfg2_RPC_URL :: jsstring
  cfg2_MEMORY_VAULT_ADDRESS :: "jsstring option"
  cfg2_USER_ADDRESS :: "jsstring option"
  cfg2_MODEL_ID :: jsstring

definition getEnv2 :: "Env option \<Rightarrow> Env \<Rightarrow> Env \<Rightarrow> Config2" where
  "getEnv2 env vars penv =
     \<lparr> cfg2_ANTHROPIC_API_KEY =
         lor_str (lor (lor (safe (opt_field env ANTHROPIC_API_KEY)) (safe (ANTHROPIC_API_KEY vars)))
                      (safe (ANTHROPIC_API_KEY penv))) (lit ''''),
       cfg2_RPC_URL =
         lor_str (lor (lor (safe (opt_field env RPC_URL)) (safe (RPC_URL vars)))
                      (safe (RPC_URL penv))) (lit ''''),
       cfg2_MEMORY_VAULT_ADDRESS =
         lor (lor (safe (opt_field env MEMORY_VAULT_ADDRESS)) (safe (MEMORY_VAULT_ADDRESS vars)))
             (safe (MEMORY_VAULT_ADDRESS penv)),
       cfg2_USER_ADDRESS =
         lor (lor (safe (opt_field env USER_ADDRESS)) (safe (USER_ADDRESS vars)))
             (safe (USER_ADDRESS penv)),
       cfg2_MODEL_ID =
         lor_str (lor (lor (safe (opt_field env MODEL_ID)) (safe (MODEL_ID vars)))
                      (safe (MODEL_ID penv))) (lit ''claude-sonnet-4-20250514'') \<rparr>"

text \<open>
  Start-up. \<open>process.exit(1)\<close> ends the process; \<open>privateKeyToAccount\<close> (viem) is a
  parameter: it returns the account of a well-formed key and throws otherwise.
  The account is the address it signs for. The Anthropic client that \<open>initialize\<close>
  also returns is made of the API key of the configuration and is left out.
\<close>

datatype 'a startup = ProcessExit nat | StartupThrew error | Ready 'a

definition initialize ::
  "(jsstring \<Rightarrow> error + jsstring) \<Rightarrow> Env option \<Rightarrow> Env \<Rightarrow> Env \<Rightarrow> (Config \<times> jsstring) startup"
where
  "initialize privateKeyToAccount env vars penv =
     (let config = getEnv env vars penv in
      if cfg_ANTHROPIC_API_KEY config = [] \<or> cfg_RPC_URL config = []
         \<or> \<not> truthy (cfg_MEMORY_VAULT_ADDRESS config) \<or> \<not> truthy (cfg_USER_ADDRESS config)
         \<or> cfg_AGENT_PRIVATE_KEY config = []
      then ProcessExit 1
      else (case privateKeyToAccount (lit ''0x'' @ cfg_AGENT_PRIVATE_KEY config) of
              Inl e \<Rightarrow> StartupThrew e
            | Inr account \<Rightarrow> Ready (config, account)))"

text \<open>The top-level start-up code of agent-2 (it has no \<open>initialize\<close> function).\<close>

definition initialize2 :: "Env \<Rightarrow> Env \<Rightarrow> Config2 startup" where
  "initialize2 vars penv =
     (let config = getEnv2 None vars penv in
      if cfg2_ANTHROPIC_API_KEY config = [] \<or> cfg2_RPC_URL config = []
         \<or> \<not> truthy (cfg2_MEMORY_VAULT_ADDRESS config) \<or> \<not> truthy (cfg2_USER_ADDRESS config)
      then ProcessExit 1
      else Ready config)"

text \<open>
  The resolution in words: a value is blank when it is missing or consists of white
  space only; a variable resolves to the trimmed first value of its sources that is
  not blank.
\<close>

definition blank :: "jsstring option \<Rightarrow> bool" where
  "blank v = (case v of None \<Rightarrow> True | Some s \<Rightarrow> list_all isWhiteSpace s)"

fun resolve :: "jsstring option list \<Rightarrow> jsstring option" where
  "resolve [] = None"
| "resolve (v # vs) = (if blank v then resolve vs else Some (trim (the v)))"

definition sources :: "Env option \<Rightarrow> Env \<Rightarrow> Env \<Rightarrow> (Env \<Rightarrow> jsstring option) \<Rightarrow> jsstring option list"
where
  "sources env vars penv f = [opt_field env f, f vars, f penv]"

definition required :: "(Env \<Rightarrow> jsstring option) list" where
  "required = [ANTHROPIC_API_KEY, RPC_URL, MEMORY_VAULT_ADDRESS, USER_ADDRESS, AGENT_PRIVATE_KEY]"

definition required2 :: "(Env \<Rightarrow> jsstring option) list" where
  "required2 = [ANTHROPIC_API_KEY, RPC_URL, MEMORY_VAULT_ADDRESS, USER_ADDRESS]"

definition or_default :: "jsstring option \<Rightarrow> jsstring \<Rightarrow> jsstring" where
  "or_default v d = (case v of None \<Rightarrow> d | Some s \<Rightarrow> s)"

text \<open>The object without any variable (\<open>{}\<close>).\<close>

definition no_env :: Env where
  "no_env = \<lparr> ANTHROPIC_API_KEY = None, OPENAI_API_KEY = None, RPC_URL = None,
              MEMORY_VAULT_ADDRESS = None, USER_ADDRESS = None, AGENT_PRIVATE_KEY = None,
              AI_PROVIDER = None, MODEL_ID = None \<rparr>"

section \<open>Ledger, language model and libraries\<close>

text \<open>The struct \<open>MemoryVault.Memory\<close> that the view functions of the ABI return.\<close>

record chain_memory =
  cm_timestamp :: nat
  cm_writer :: jsstring
  cm_content :: jsstring

text \<open>
  The object \<open>{ topic, content, timestamp, writer }\<close> the agents build from it.
  \<open>Number(result.timestamp)\<close> is the time stamp itself (seconds fit a double).
\<close>

record memory =
  m_topic :: jsstring
  m_content :: jsstring
  m_timestamp :: nat
  m_writer :: jsstring

text \<open>The argument of \<open>generateText\<close>.\<close>

record llm_request =
  rq_model :: jsstring
  rq_system :: jsstring
  rq_prompt :: jsstring
  rq_temperature :: rat

text \<open>
  What the outside does during one turn (or one HTTP request): the calls of
  \<open>publicClient.readContract\<close> for the three view functions, of
  \<open>walletClient.writeContract\<close> for \<open>storeMemoryFor\<close> (it returns the transaction
  hash) and of \<open>generateText\<close>. Each returns a value or throws. The first two
  arguments of a contract call are the contract address and the user address.
\<close>

record world =
  getLatestMemory_call :: "jsstring option \<Rightarrow> jsstring option \<Rightarrow> hash \<Rightarrow> error + chain_memory"
  getMemoryCount_call :: "jsstring option \<Rightarrow> jsstring option \<Rightarrow> hash \<Rightarrow> error + nat"
  getMemory_call :: "jsstring option \<Rightarrow> jsstring option \<Rightarrow> hash \<Rightarrow> nat \<Rightarrow> error + chain_memory"
  storeMemoryFor_call :: "jsstring option \<Rightarrow> jsstring option \<Rightarrow> hash \<Rightarrow> jsstring \<Rightarrow> error + jsstring"
  generateText :: "llm_request \<Rightarrow> error + jsstring"

text \<open>JSON values; \<open>JObj kvs\<close> is the object whose property \<open>k\<close> is \<open>map_of kvs k\<close>.\<close>

datatype json =
  JNull | JBool bool | JNum rat | JStr jsstring | JArr "json list"
  | JObj "(jsstring \<times> json) list"

text \<open>
  The \<open>abi\<close> argument of a contract call is an array. Its items are the objects of a
  JSON ABI, of which the lookup below reads the name only, or plain strings: signatures
  in readable form that \<open>parseAbi\<close> was not applied to.
\<close>

datatype abi_item = AbiObject jsstring | AbiText jsstring

text \<open>
  The pure functions of the libraries and of the language that the code calls:
  \<open>keccak256\<close> (viem); \<open>JSON.parse\<close>, which throws a SyntaxError on a text that is
  not JSON; the conversion of a value that is not a string to a string (in a template
  or in \<open>TextEncoder.encode\<close>); and the two errors of which only the occurrence is
  modelled, not the wording: what viem throws when it does not find the function in
  the abi, and the TypeError of destructuring \<open>null\<close>.
\<close>

record libs =
  keccak256 :: "bytes \<Rightarrow> hash"
  JSON_parse :: "jsstring \<Rightarrow> error + json"
  ToString :: "json \<Rightarrow> jsstring"
  abi_error :: "abi_item list \<Rightarrow> jsstring \<Rightarrow> error"
  null_error :: error

text \<open>
  What a run does that can be observed: the lines it prints, the requests it sends to
  the language model and the transactions it submits. View calls of the ledger change
  nothing and are not recorded.
\<close>

datatype event =
  LogBanner
  | LogMemory "memory option"
  | LogMemories "memory list"
  | ModelCall llm_request
  | LogReply jsstring
  | LogParseError
  | LogStoring jsstring
  | StoreCall "jsstring option" "jsstring option" hash jsstring
  | LogStored jsstring
  | LogStoreFailed error
  | LogNoStore
  | LogWorkerError error

text \<open>
  An asynchronous computation: its promise is fulfilled with a value (\<open>Inr\<close>) or
  rejected with an error (\<open>Inl\<close>), after the events on the right. \<open>andThen m f\<close> is
  \<open>const x = await m; f(x)\<close>.
\<close>

type_synonym 'a async = "(error + 'a) \<times> event list"

definition andThen :: "'a async \<Rightarrow> ('a \<Rightarrow> 'b async) \<Rightarrow> 'b async" where
  "andThen m f =
     (case m of
        (Inl e, tr) \<Rightarrow> (Inl e, tr)
      | (Inr x, tr) \<Rightarrow> (case f x of (r, tr') \<Rightarrow> (r, tr @ tr')))"

definition emit :: "event \<Rightarrow> unit async" where
  "emit ev = (Inr (), [ev])"

text \<open>\<open>xs.join(sep)\<close>\<close>

fun join :: "jsstring \<Rightarrow> jsstring list \<Rightarrow> jsstring" where
  "join sep [] = []"
| "join sep [x] = x"
| "join sep (x # y # ys) = x @ sep @ join sep (y # ys)"

section \<open>agent-app: reading and writing the vault\<close>

definition getLatestMemory :: "libs \<Rightarrow> world \<Rightarrow> Config \<Rightarrow> jsstring \<Rightarrow> memory option async" where
  "getLatestMemory L W config topic =
     (let hash = topicHash (keccak256 L) topic in
      case getLatestMemory_call W (cfg_MEMORY_VAULT_ADDRESS config) (cfg_USER_ADDRESS config) hash of
        Inr result \<Rightarrow>
          (Inr (Some \<lparr> m_topic = topic, m_content = cm_content result,
                       m_timestamp = cm_timestamp result, m_writer = cm_writer result \<rparr>), [])
      | Inl e \<Rightarrow> (Inr None, []))"

definition storeMemory :: "libs \<Rightarrow> world \<Rightarrow> Config \<Rightarrow> jsstring \<Rightarrow> jsstring \<Rightarrow> jsstring async" where
  "storeMemory L W config topic content =
     (let hash = topicHash (keccak256 L) topic in
      (storeMemoryFor_call W (cfg_MEMORY_VAULT_ADDRESS config) (cfg_USER_ADDRESS config) hash content,
       [StoreCall (cfg_MEMORY_VAULT_ADDRESS config) (cfg_USER_ADDRESS config) hash content]))"

section \<open>agent-app: the memory decision\<close>

record decision =
  should_store :: bool
  d_topic :: "jsstring option"
  d_summary :: "jsstring option"

text \<open>
  \<open>MemoryDecisionSchema.parse\<close>: a zod object with a required boolean and two optional
  strings. An optional string accepts a missing property and a string, nothing else
  (not \<open>null\<close>); properties the schema does not name are dropped.
\<close>

definition zod_optional_string :: "json option \<Rightarrow> error + jsstring option" where
  "zod_optional_string v =
     (case v of
        None \<Rightarrow> Inr None
      | Some (JStr s) \<Rightarrow> Inr (Some s)
      | Some _ \<Rightarrow> Inl (Error ZodError (lit ''Expected string'')))"

definition MemoryDecisionSchema_parse :: "json \<Rightarrow> error + decision" where
  "MemoryDecisionSchema_parse v =
     (case v of
        JObj kvs \<Rightarrow>
          (case (map_of kvs (lit ''should_store''),
                 zod_optional_string (map_of kvs (lit ''topic'')),
                 zod_optional_string (map_of kvs (lit ''summary''))) of
             (Some (JBool b), Inr t, Inr s) \<Rightarrow>
               Inr \<lparr> should_store = b, d_topic = t, d_summary = s \<rparr>
           | _ \<Rightarrow> Inl (Error ZodError (lit ''Invalid input'')))
      | _ \<Rightarrow> Inl (Error ZodError (lit ''Expected object'')))"

definition memory_line :: "memory \<Rightarrow> jsstring" where
  "memory_line m = lit ''- ['' @ m_topic m @ lit ''] '' @ m_content m"

definition decide_systemPrompt :: jsstring where
  "decide_systemPrompt =
     join [0xA]
       [[], lit ''Decide whether the user'' @ [0x27] @ lit ''s message contains long-term info.'',
        [], lit ''Return ONLY JSON:'',
        lit ''{'',
        lit ''  '' @ [0x22] @ lit ''should_store'' @ [0x22] @ lit '': boolean,'',
        lit ''  '' @ [0x22] @ lit ''topic'' @ [0x22] @ lit '': string | null,'',
        lit ''  '' @ [0x22] @ lit ''summary'' @ [0x22] @ lit '': string | null'',
        lit ''}'', []]"

definition turn_prompt :: "jsstring \<Rightarrow> jsstring \<Rightarrow> jsstring" where
  "turn_prompt memoriesText userMessage =
     join [0xA]
       [[], lit ''Memories:'', memoriesText, [],
        lit ''User: '' @ [0x22] @ userMessage @ [0x22], []]"

definition decide_request :: "Config \<Rightarrow> jsstring \<Rightarrow> memory list \<Rightarrow> llm_request" where
  "decide_request config userMessage memories =
     (let memoriesText =
            (if length memories = 0 then lit ''No existing memories.''
             else join [0xA] (map memory_line memories))
      in \<lparr> rq_model = cfg_MODEL_ID config, rq_system = decide_systemPrompt,
           rq_prompt = turn_prompt memoriesText userMessage, rq_temperature = 2 / 10 \<rparr>)"

definition decideMemory :: "libs \<Rightarrow> world \<Rightarrow> Config \<Rightarrow> jsstring \<Rightarrow> memory list \<Rightarrow> decision async" where
  "decideMemory L W config userMessage memories =
     andThen (generateText W (decide_request config userMessage memories),
              [ModelCall (decide_request config userMessage memories)])
       (\<lambda>text.
          case JSON_parse L text of
            Inl e \<Rightarrow>
              (Inr \<lparr> should_store = False, d_topic = None, d_summary = None \<rparr>, [LogParseError])
          | Inr v \<Rightarrow>
              (case MemoryDecisionSchema_parse v of
                 Inl e \<Rightarrow>
                   (Inr \<lparr> should_store = False, d_topic = None, d_summary = None \<rparr>,
                    [LogParseError])
               | Inr d \<Rightarrow> (Inr d, [])))"

section \<open>agent-app: the reply and the loop\<close>

definition answer_systemPrompt :: jsstring where
  "answer_systemPrompt =
     join [0xA]
       [[], lit ''You are a memory-aware assistant.'',
        lit ''Use on-chain long-term memories to provide helpful responses.'', []]"

definition answer_request :: "Config \<Rightarrow> jsstring \<Rightarrow> memory list \<Rightarrow> llm_request" where
  "answer_request config userMessage memories =
     (let memoriesContext =
            (if length memories = 0 then lit ''No memories stored.''
             else join [0xA] (map memory_line memories))
      in \<lparr> rq_model = cfg_MODEL_ID config, rq_system = answer_systemPrompt,
           rq_prompt = turn_prompt memoriesContext userMessage, rq_temperature = 5 / 10 \<rparr>)"

definition answerUser :: "world \<Rightarrow> Config \<Rightarrow> jsstring \<Rightarrow> memory list \<Rightarrow> jsstring async" where
  "answerUser W config userMessage memories =
     (generateText W (answer_request config userMessage memories),
      [ModelCall (answer_request config userMessage memories)])"

definition topics :: "jsstring list" where
  "topics = [lit ''identity_profile'', lit ''preferences'', lit ''risk_profile'']"

text \<open>
  The loop \<open>for (const t of topics)\<close> of \<open>main\<close>, with the array \<open>memories\<close> it
  pushes to.
\<close>

fun reading :: "libs \<Rightarrow> world \<Rightarrow> Config \<Rightarrow> jsstring list \<Rightarrow> memory list \<Rightarrow> memory list async" where
  "reading L W config [] memories = (Inr memories, [])"
| "reading L W config (t # ts) memories =
     andThen (getLatestMemory L W config t)
       (\<lambda>m. andThen (emit (LogMemory m))
          (\<lambda>_. reading L W config ts
                 (case m of None \<Rightarrow> memories | Some x \<Rightarrow> memories @ [x])))"

text \<open>
  The conditional that ends the body of the loop of \<open>main\<close>:
  \<open>if (decision.should_store && decision.topic && decision.summary)\<close> with its
  try/catch around \<open>storeMemory\<close>.
\<close>

definition writing :: "libs \<Rightarrow> world \<Rightarrow> Config \<Rightarrow> decision \<Rightarrow> unit async" where
  "writing L W config decision =
     (if should_store decision \<and> truthy (d_topic decision) \<and> truthy (d_summary decision)
      then andThen (emit (LogStoring (the (d_topic decision))))
             (\<lambda>_. case storeMemory L W config (the (d_topic decision)) (the (d_summary decision)) of
                     (Inr tx, tr) \<Rightarrow> (Inr (), tr @ [LogStored tx])
                   | (Inl err, tr) \<Rightarrow> (Inr (), tr @ [LogStoreFailed err]))
      else emit LogNoStore)"

text \<open>One iteration of \<open>while (true)\<close> in \<open>main\<close>, for the line \<open>msg\<close> that was read.\<close>

definition turn :: "libs \<Rightarrow> world \<Rightarrow> Config \<Rightarrow> jsstring \<Rightarrow> unit async" where
  "turn L W config msg =
     andThen (reading L W config topics [])
       (\<lambda>memories. andThen (emit (LogMemories memories))
          (\<lambda>_. andThen (answerUser W config msg memories)
             (\<lambda>reply. andThen (emit (LogReply reply))
                (\<lambda>_. andThen (decideMemory L W config msg memories)
                   (\<lambda>decision. writing L W config decision)))))"

text \<open>
  \<open>main\<close> on the lines the input gives, each with what the outside does during its
  turn. A turn that throws rejects the promise of \<open>main\<close>: nothing handles it and the
  process ends. After the last line the loop waits for the next one.
\<close>

datatype run = Crashed error | AwaitingInput

fun main_loop :: "libs \<Rightarrow> Config \<Rightarrow> (jsstring \<times> world) list \<Rightarrow> run \<times> event list" where
  "main_loop L config [] = (AwaitingInput, [])"
| "main_loop L config ((msg, W) # rest) =
     (case turn L W config msg of
        (Inl e, tr) \<Rightarrow> (Crashed e, tr)
      | (Inr _, tr) \<Rightarrow> (case main_loop L config rest of (r, tr') \<Rightarrow> (r, tr @ tr')))"

definition main :: "libs \<Rightarrow> Config \<Rightarrow> (jsstring \<times> world) list \<Rightarrow> run \<times> event list" where
  "main L config input = (case main_loop L config input of (r, tr) \<Rightarrow> (r, LogBanner # tr))"

section \<open>agent-2: the scan of all topics\<close>

definition knownTopics :: "jsstring list" where
  "knownTopics =
     [lit ''identity_profile'', lit ''preferences'', lit ''risk_profile'', lit ''user_identity'',
      lit ''personal_identity'', lit ''wallet_profile'', lit ''goals'']"

text \<open>
  The inner loop \<open>for (let i = 0; i < Number(count); i++)\<close> of \<open>fetchUserMemories\<close>.
  It pushes to the array \<open>results\<close> of the whole scan; when a read throws, the loop
  ends with the error and the array keeps what was pushed.
\<close>

function fetch_records ::
  "world \<Rightarrow> Config2 \<Rightarrow> jsstring \<Rightarrow> hash \<Rightarrow> nat \<Rightarrow> nat \<Rightarrow> memory list \<Rightarrow> (error + unit) \<times> memory list"
where
  "fetch_records W config topic hash i count results =
     (if i < count
      then (case getMemory_call W (cfg2_MEMORY_VAULT_ADDRESS config) (cfg2_USER_ADDRESS config)
                   hash i of
              Inl e \<Rightarrow> (Inl e, results)
            | Inr mem \<Rightarrow>
                fetch_records W config topic hash (Suc i) count
                  (results @ [\<lparr> m_topic = topic, m_content = cm_content mem,
                                 m_timestamp = cm_timestamp mem, m_writer = cm_writer mem \<rparr>]))
      else (Inr (), results))"
  by pat_completeness auto
termination
  by (relation "measure (\<lambda>(W, config, topic, hash, i, count, results). count - i)") auto

text \<open>
  The outer loop \<open>for (const topic of knownTopics)\<close> with its try/catch: an error of
  the count read or of a record read ends the work on this topic and is ignored.
\<close>

fun fetchTopics :: "libs \<Rightarrow> world \<Rightarrow> Config2 \<Rightarrow> jsstring list \<Rightarrow> memory list \<Rightarrow> memory list" where
  "fetchTopics L W config [] results = results"
| "fetchTopics L W config (topic # ts) results =
     (let hash = topicHash (keccak256 L) topic in
      case getMemoryCount_call W (cfg2_MEMORY_VAULT_ADDRESS config) (cfg2_USER_ADDRESS config)
             hash of
        Inl e \<Rightarrow> fetchTopics L W config ts results
      | Inr count \<Rightarrow>
          (case fetch_records W config topic hash 0 count results of
             (Inl e, results') \<Rightarrow> fetchTopics L W config ts results'
           | (Inr _, results') \<Rightarrow> fetchTopics L W config ts results'))"

definition fetchUserMemories :: "libs \<Rightarrow> world \<Rightarrow> Config2 \<Rightarrow> error + memory list" where
  "fetchUserMemories L W config = Inr (fetchTopics L W config knownTopics [])"

section \<open>The HTTP service (\<open>fetch\<close> of mcp-memory-vault/src/server.ts)\<close>

text \<open>
  The environment of the worker, the request and the response. Of a request the handler
  reads the method, the path of its URL and the body through \<open>request.json()\<close>, which
  returns the JSON value of the body and throws on a body that is not JSON. The body of
  a response is the value given to \<open>JSON.stringify\<close>, or nothing (\<open>null\<close>).
\<close>

record worker_env =
  env_RPC_URL :: jsstring
  env_PRIVATE_KEY :: jsstring
  env_MEMORY_VAULT_ADDRESS :: jsstring

record request =
  req_method :: jsstring
  req_pathname :: jsstring
  req_json :: "error + json"

record response =
  status :: nat
  headers :: "(jsstring \<times> jsstring) list"
  body :: "json option"

definition json_headers :: "(jsstring \<times> jsstring) list" where
  "json_headers = [(lit ''Content-Type'', lit ''application/json'')]"

definition descriptor :: json where
  "descriptor =
     JObj [(lit ''name'', JStr (lit ''memory-vault-mcp'')),
           (lit ''version'', JStr (lit ''1.0.0'')),
           (lit ''description'', JStr (lit ''On-chain memory vault MCP server for Nullshot agents'')),
           (lit ''tools'',
            JArr [JObj [(lit ''name'', JStr (lit ''store_memory'')),
                        (lit ''description'',
                         JStr (lit ''Store a memory string on-chain under a topic for a user'')),
                        (lit ''parameters'',
                         JObj [(lit ''user_address'', JStr (lit ''string - Ethereum address of the user'')),
                               (lit ''topic'', JStr (lit ''string - Topic/category for the memory'')),
                               (lit ''content'', JStr (lit ''string - Memory content to store''))])],
                  JObj [(lit ''name'', JStr (lit ''get_latest_memory'')),
                        (lit ''description'',
                         JStr (lit ''Retrieve the latest memory for a user and topic from the blockchain'')),
                        (lit ''parameters'',
                         JObj [(lit ''user_address'', JStr (lit ''string - Ethereum address of the user'')),
                               (lit ''topic'',
                                JStr (lit ''string - Topic/category to retrieve memory from''))])]]),
           (lit ''endpoints'',
            JObj [(lit ''store_memory'', JStr (lit ''/store-memory'')),
                  (lit ''get_latest_memory'', JStr (lit ''/get-memory''))])]"

text \<open>The \<open>catch\<close> of the handler, after the events \<open>tr\<close>.\<close>

definition worker_error :: "event list \<Rightarrow> error \<Rightarrow> response \<times> event list" where
  "worker_error tr error =
     (\<lparr> status = 500, headers = json_headers,
        body = Some (JObj [(lit ''success'', JBool False), (lit ''error'', JStr (message error))]) \<rparr>,
      tr @ [LogWorkerError error])"

text \<open>
  The values of the language that a JSON body gives: a property of a value
  (\<open>undefined\<close>, here \<open>None\<close>, when the value is not an object or has no such
  property), the truth value of a value in a condition, and its use as a string.
\<close>

definition property :: "json \<Rightarrow> jsstring \<Rightarrow> json option" where
  "property v k = (case v of JObj kvs \<Rightarrow> map_of kvs k | _ \<Rightarrow> None)"

fun js_truthy :: "json option \<Rightarrow> bool" where
  "js_truthy None = False"
| "js_truthy (Some JNull) = False"
| "js_truthy (Some (JBool b)) = b"
| "js_truthy (Some (JNum n)) = (n \<noteq> 0)"
| "js_truthy (Some (JStr s)) = (s \<noteq> [])"
| "js_truthy (Some (JArr vs)) = True"
| "js_truthy (Some (JObj kvs)) = True"

definition js_string :: "libs \<Rightarrow> json \<Rightarrow> jsstring" where
  "js_string L v = (case v of JStr s \<Rightarrow> s | _ \<Rightarrow> ToString L v)"

text \<open>
  The constant \<open>abi\<close> of the handler: three plain strings, given to
  \<open>writeContract\<close> and \<open>readContract\<close> as they are (\<open>parseAbi\<close> is imported and not
  called).
\<close>

definition server_abi :: "abi_item list" where
  "server_abi =
     [AbiText (lit ''function storeMemoryFor(address user, bytes32 topic, string content)''),
      AbiText (lit ''function getLatestMemory(address user, bytes32 topic) view returns (uint256 timestamp, address writer, string content)''),
      AbiText (lit ''function getMemoryCount(address user, bytes32 topic) view returns (uint256)'')]"

text \<open>
  The first step of \<open>writeContract\<close> and \<open>readContract\<close> (viem), before anything is
  sent: the function is looked up in the abi by testing \<open>'name' in item\<close> and the name
  of every item. The test throws on an item that is a string, and the lookup throws
  when no item has the name.
\<close>

fun is_AbiObject :: "abi_item \<Rightarrow> bool" where
  "is_AbiObject (AbiObject n) = True"
| "is_AbiObject (AbiText s) = False"

definition abi_lookup :: "libs \<Rightarrow> abi_item list \<Rightarrow> jsstring \<Rightarrow> error + unit" where
  "abi_lookup L abi functionName =
     (if list_all is_AbiObject abi \<and> AbiObject functionName \<in> set abi then Inr ()
      else Inl (abi_error L abi functionName))"

text \<open>The branch \<open>POST /store-memory\<close>.\<close>

definition store_memory_route :: "libs \<Rightarrow> world \<Rightarrow> worker_env \<Rightarrow> request \<Rightarrow> response \<times> event list" where
  "store_memory_route L W env request =
     (case req_json request of
        Inl error \<Rightarrow> worker_error [] error
      | Inr JNull \<Rightarrow> worker_error [] (null_error L)
      | Inr payload \<Rightarrow>
          (let user_address = property payload (lit ''user_address'');
               topic = property payload (lit ''topic'');
               content = property payload (lit ''content'')
           in if \<not> js_truthy user_address \<or> \<not> js_truthy topic \<or> \<not> js_truthy content
              then (\<lparr> status = 400, headers = json_headers,
                      body = Some (JObj [(lit ''success'', JBool False),
                        (lit ''error'',
                         JStr (lit ''Missing required fields: user_address, topic, content''))]) \<rparr>,
                    [])
              else (let hash = topicHash (keccak256 L) (js_string L (the topic)) in
                    case abi_lookup L server_abi (lit ''storeMemoryFor'') of
                      Inl error \<Rightarrow> worker_error [] error
                    | Inr found \<Rightarrow>
                        (case storeMemoryFor_call W (Some (env_MEMORY_VAULT_ADDRESS env))
                                (Some (js_string L (the user_address))) hash
                                (js_string L (the content)) of
                           Inl error \<Rightarrow>
                             worker_error
                               [StoreCall (Some (env_MEMORY_VAULT_ADDRESS env))
                                  (Some (js_string L (the user_address))) hash
                                  (js_string L (the content))] error
                         | Inr tx \<Rightarrow>
                             (\<lparr> status = 200, headers = json_headers,
                                body = Some (JObj [(lit ''success'', JBool True),
                                  (lit ''message'',
                                   JStr (lit ''Successfully stored memory for user ''
                                         @ js_string L (the user_address)
                                         @ lit '' under topic '' @ [0x27]
                                         @ js_string L (the topic) @ [0x27])),
                                  (lit ''tx_hash'', JStr tx)]) \<rparr>,
                              [StoreCall (Some (env_MEMORY_VAULT_ADDRESS env))
                                 (Some (js_string L (the user_address))) hash
                                 (js_string L (the content))])))))"

text \<open>The branch \<open>POST /get-memory\<close>.\<close>

definition get_memory_route :: "libs \<Rightarrow> world \<Rightarrow> worker_env \<Rightarrow> request \<Rightarrow> response \<times> event list" where
  "get_memory_route L W env request =
     (case req_json request of
        Inl error \<Rightarrow> worker_error [] error
      | Inr JNull \<Rightarrow> worker_error [] (null_error L)
      | Inr payload \<Rightarrow>
          (let user_address = property payload (lit ''user_address'');
               topic = property payload (lit ''topic'')
           in if \<not> js_truthy user_address \<or> \<not> js_truthy topic
              then (\<lparr> status = 400, headers = json_headers,
                      body = Some (JObj [(lit ''success'', JBool False),
                        (lit ''error'', JStr (lit ''Missing required fields: user_address, topic''))]) \<rparr>,
                    [])
              else (let hash = topicHash (keccak256 L) (js_string L (the topic)) in
                    case abi_lookup L server_abi (lit ''getLatestMemory'') of
                      Inl error \<Rightarrow> worker_error [] error
                    | Inr found \<Rightarrow>
                        (case getLatestMemory_call W (Some (env_MEMORY_VAULT_ADDRESS env))
                                (Some (js_string L (the user_address))) hash of
                           Inl error \<Rightarrow> worker_error [] error
                         | Inr result \<Rightarrow>
                             (\<lparr> status = 200, headers = json_headers,
                                body = Some (JObj [(lit ''success'', JBool True),
                                  (lit ''timestamp'', JNum (of_nat (cm_timestamp result))),
                                  (lit ''writer'', JStr (cm_writer result)),
                                  (lit ''content'', JStr (cm_content result))]) \<rparr>,
                              [])))))"

text \<open>
  The handler. \<open>privateKeyToAccount\<close> runs first, inside the \<open>try\<close>, for every
  request. The routes are tried in the order of the source.
\<close>

definition fetch ::
  "(jsstring \<Rightarrow> error + jsstring) \<Rightarrow> libs \<Rightarrow> world \<Rightarrow> worker_env \<Rightarrow> request \<Rightarrow> response \<times> event list"
where
  "fetch privateKeyToAccount L W env request =
     (case privateKeyToAccount (lit ''0x'' @ env_PRIVATE_KEY env) of
        Inl error \<Rightarrow> worker_error [] error
      | Inr account \<Rightarrow>
          if req_method request = lit ''GET''
          then (\<lparr> status = 200,
                  headers = [(lit ''Content-Type'', lit ''application/json''),
                             (lit ''Access-Control-Allow-Origin'', lit ''*'')],
                  body = Some descriptor \<rparr>, [])
          else if req_method request = lit ''POST'' \<and> req_pathname request = lit ''/store-memory''
          then store_memory_route L W env request
          else if req_method request = lit ''POST'' \<and> req_pathname request = lit ''/get-memory''
          then get_memory_route L W env request
          else if req_method request = lit ''OPTIONS''
          then (\<lparr> status = 204,
                  headers = [(lit ''Access-Control-Allow-Origin'', lit ''*''),
                             (lit ''Access-Control-Allow-Methods'', lit ''GET, POST, OPTIONS''),
                             (lit ''Access-Control-Allow-Headers'', lit ''Content-Type'')],
                  body = None \<rparr>, [])
          else (\<lparr> status = 404, headers = json_headers,
                  body = Some (JObj [(lit ''error'', JStr (lit ''Not found''))]) \<rparr>, []))"

section \<open>Notions used to state the properties of agent-app\<close>

text \<open>
  What one read of the latest record of a topic gives: the record with its topic when
  the call returns, nothing when the call throws.
\<close>

definition latest :: "libs \<Rightarrow> world \<Rightarrow> Config \<Rightarrow> jsstring \<Rightarrow> memory option" where
  "latest L W config t =
     (case getLatestMemory_call W (cfg_MEMORY_VAULT_ADDRESS config) (cfg_USER_ADDRESS config)
             (topicHash (keccak256 L) t) of
        Inl e \<Rightarrow> None
      | Inr r \<Rightarrow> Some \<lparr> m_topic = t, m_content = cm_content r, m_timestamp = cm_timestamp r,
                        m_writer = cm_writer r \<rparr>)"

text \<open>The memories of the topics whose read returned, in the order of the topics.\<close>

definition retrieved :: "libs \<Rightarrow> world \<Rightarrow> Config \<Rightarrow> jsstring list \<Rightarrow> memory list" where
  "retrieved L W config ts = List.map_filter (latest L W config) ts"

text \<open>A decision on which the loop acts.\<close>

definition actionable :: "decision \<Rightarrow> bool" where
  "actionable d = (should_store d \<and> d_topic d \<noteq> None \<and> d_topic d \<noteq> Some []
                    \<and> d_summary d \<noteq> None \<and> d_summary d \<noteq> Some [])"

fun is_StoreCall :: "event \<Rightarrow> bool" where
  "is_StoreCall (StoreCall a u h c) = True"
| "is_StoreCall _ = False"

definition store_calls :: "event list \<Rightarrow> event list" where
  "store_calls tr = filter is_StoreCall tr"

text \<open>
  The Decision schema in words: an object whose \<open>should_store\<close> is a boolean and whose
  \<open>topic\<close> and \<open>summary\<close> are each either missing or a string.
\<close>

definition missing_or_string :: "json option \<Rightarrow> bool" where
  "missing_or_string v = (case v of None \<Rightarrow> True | Some (JStr s) \<Rightarrow> True | Some _ \<Rightarrow> False)"

definition conforms :: "json \<Rightarrow> bool" where
  "conforms v =
     (case v of
        JObj kvs \<Rightarrow>
          (case map_of kvs (lit ''should_store'') of Some (JBool b) \<Rightarrow> True | _ \<Rightarrow> False)
          \<and> missing_or_string (map_of kvs (lit ''topic''))
          \<and> missing_or_string (map_of kvs (lit ''summary''))
      | _ \<Rightarrow> False)"

definition fail_safe :: decision where
  "fail_safe = \<lparr> should_store = False, d_topic = None, d_summary = None \<rparr>"

text \<open>Sample values for the instances below.\<close>

definition quoted :: "string \<Rightarrow> jsstring" where
  "quoted s = 0x22 # lit s @ [0x22]"

definition alex_text :: jsstring where
  "alex_text =
     lit ''{'' @ quoted ''should_store'' @ lit '':true,'' @ quoted ''topic'' @ lit '':''
       @ quoted ''identity_profile'' @ lit '','' @ quoted ''summary'' @ lit '':''
       @ quoted ''User's name is Alex'' @ lit ''}''"

definition toy_libs :: libs where
  "toy_libs = \<lparr> keccak256 = (\<lambda>bs. of_nat (length bs)),
                JSON_parse = (\<lambda>text.
                  if text = lit ''{}'' then Inr (JObj [])
                  else if text = alex_text
                  then Inr (JObj [(lit ''should_store'', JBool True),
                                  (lit ''topic'', JStr (lit ''identity_profile'')),
                                  (lit ''summary'', JStr (lit ''User's name is Alex''))])
                  else Inl (Error SyntaxError (lit ''Unexpected token''))),
                ToString = (\<lambda>v. lit ''[object Object]''),
                abi_error = (\<lambda>abi functionName. Error TypeError (lit ''Cannot use 'in' operator'')),
                null_error = Error TypeError (lit ''Cannot destructure property of null'') \<rparr>"

definition sample_config :: Config where
  "sample_config = \<lparr> cfg_ANTHROPIC_API_KEY = lit ''key'', cfg_RPC_URL = lit ''http://rpc'',
       cfg_MEMORY_VAULT_ADDRESS = Some (lit ''0xvault''), cfg_USER_ADDRESS = Some (lit ''0xuser''),
       cfg_AGENT_PRIVATE_KEY = lit ''11'', cfg_MODEL_ID = lit ''model'' \<rparr>"

text \<open>A world without network: every call throws a transport error.\<close>

definition offline :: world where
  "offline = \<lparr> getLatestMemory_call = (\<lambda>a u h. Inl (Error TransportError (lit ''fetch failed''))),
               getMemoryCount_call = (\<lambda>a u h. Inl (Error TransportError (lit ''fetch failed''))),
               getMemory_call = (\<lambda>a u h i. Inl (Error TransportError (lit ''fetch failed''))),
               storeMemoryFor_call = (\<lambda>a u h c. Inl (Error TransportError (lit ''fetch failed''))),
               generateText = (\<lambda>rq. Inl (Error TransportError (lit ''fetch failed''))) \<rparr>"

text \<open>
  A world in which the model replies and then proposes to store the name of the user,
  and the ledger accepts the transaction.
\<close>

definition alex_world :: world where
  "alex_world = offline
     \<lparr> storeMemoryFor_call := (\<lambda>a u h c. Inr (lit ''0xtx'')),
       generateText := (\<lambda>rq. if rq_system rq = answer_systemPrompt
                               then Inr (lit ''Nice to meet you, Alex.'') else Inr alex_text) \<rparr>"

text \<open>
  A world in which the read of \<open>preferences\<close> fails and the two other topics have a
  record; the model replies and then answers \<open>{}\<close>.
\<close>

definition partial_world :: world where
  "partial_world = offline
     \<lparr> getLatestMemory_call := (\<lambda>a u h.
         if h = 11 then Inl (Error TransportError (lit ''fetch failed''))
         else Inr \<lparr> cm_timestamp = 7, cm_writer = lit ''0xw'', cm_content = lit ''fact'' \<rparr>),
       generateText := (\<lambda>rq. if rq_system rq = answer_systemPrompt
                               then Inr (lit ''ok'') else Inr (lit ''{}'')) \<rparr>"

definition alex_decision :: decision where
  "alex_decision = \<lparr> should_store = True, d_topic = Some (lit ''identity_profile''),
                       d_summary = Some (lit ''User's name is Alex'') \<rparr>"

text \<open>The same world with a ledger that rejects the transaction.\<close>

definition alex_world_rejecting :: world where
  "alex_world_rejecting = alex_world
     \<lparr> storeMemoryFor_call := (\<lambda>a u h c. Inl (Error ContractRevert (lit ''reverted''))) \<rparr>"

section \<open>Notions used to state the properties of agent-2\<close>

text \<open>What the read of record \<open>i\<close> of a topic gives: the record with its topic, or nothing.\<close>

definition record_at :: "world \<Rightarrow> Config2 \<Rightarrow> jsstring \<Rightarrow> hash \<Rightarrow> nat \<Rightarrow> memory option" where
  "record_at W config topic hash i =
     (case getMemory_call W (cfg2_MEMORY_VAULT_ADDRESS config) (cfg2_USER_ADDRESS config) hash i of
        Inl e \<Rightarrow> None
      | Inr mem \<Rightarrow> Some \<lparr> m_topic = topic, m_content = cm_content mem,
                          m_timestamp = cm_timestamp mem, m_writer = cm_writer mem \<rparr>)"

text \<open>
  The records of a topic from index 0 up to the first index whose read throws (all of
  them when no read throws), and none when the count read throws.
\<close>

definition read_prefix :: "libs \<Rightarrow> world \<Rightarrow> Config2 \<Rightarrow> jsstring \<Rightarrow> memory list" where
  "read_prefix L W config topic =
     (case getMemoryCount_call W (cfg2_MEMORY_VAULT_ADDRESS config) (cfg2_USER_ADDRESS config)
             (topicHash (keccak256 L) topic) of
        Inl e \<Rightarrow> []
      | Inr count \<Rightarrow>
          map (\<lambda>i. the (record_at W config topic (topicHash (keccak256 L) topic) i))
            (takeWhile (\<lambda>i. record_at W config topic (topicHash (keccak256 L) topic) i \<noteq> None)
               [0..<count]))"

text \<open>
  The claim in its words. A topic errors or has zero records when its count read
  throws, its count is zero, or the read of one of its records throws; the scan is to
  return the records, by index, of the other topics, topic after topic.
\<close>

definition topic_fails :: "libs \<Rightarrow> world \<Rightarrow> Config2 \<Rightarrow> jsstring \<Rightarrow> bool" where
  "topic_fails L W config topic =
     (case getMemoryCount_call W (cfg2_MEMORY_VAULT_ADDRESS config) (cfg2_USER_ADDRESS config)
             (topicHash (keccak256 L) topic) of
        Inl e \<Rightarrow> True
      | Inr count \<Rightarrow>
          count = 0
          \<or> list_ex (\<lambda>i. record_at W config topic (topicHash (keccak256 L) topic) i = None)
               [0..<count])"

definition all_records :: "libs \<Rightarrow> world \<Rightarrow> Config2 \<Rightarrow> jsstring \<Rightarrow> memory list" where
  "all_records L W config topic =
     (case getMemoryCount_call W (cfg2_MEMORY_VAULT_ADDRESS config) (cfg2_USER_ADDRESS config)
             (topicHash (keccak256 L) topic) of
        Inl e \<Rightarrow> []
      | Inr count \<Rightarrow>
          List.map_filter (record_at W config topic (topicHash (keccak256 L) topic)) [0..<count])"

definition claimed_scan :: "libs \<Rightarrow> world \<Rightarrow> Config2 \<Rightarrow> jsstring list \<Rightarrow> memory list" where
  "claimed_scan L W config ts =
     concat (map (all_records L W config) (filter (\<lambda>t. \<not> topic_fails L W config t) ts))"

text \<open>A topic fails midway when its record 0 is read and the read of a later record throws.\<close>

definition fails_midway :: "libs \<Rightarrow> world \<Rightarrow> Config2 \<Rightarrow> jsstring \<Rightarrow> bool" where
  "fails_midway L W config topic =
     (case getMemoryCount_call W (cfg2_MEMORY_VAULT_ADDRESS config) (cfg2_USER_ADDRESS config)
             (topicHash (keccak256 L) topic) of
        Inl e \<Rightarrow> False
      | Inr count \<Rightarrow>
          record_at W config topic (topicHash (keccak256 L) topic) 0 \<noteq> None
          \<and> list_ex (\<lambda>i. record_at W config topic (topicHash (keccak256 L) topic) i = None)
               [0..<count])"

definition sample_config2 :: Config2 where
  "sample_config2 = \<lparr> cfg2_ANTHROPIC_API_KEY = lit ''key'', cfg2_RPC_URL = lit ''http://rpc'',
       cfg2_MEMORY_VAULT_ADDRESS = Some (lit ''0xvault''), cfg2_USER_ADDRESS = Some (lit ''0xuser''),
       cfg2_MODEL_ID = lit ''model'' \<rparr>"

text \<open>
  A world in which only \<open>identity_profile\<close> (key 16 under the sample hash) has a
  count, of two records, and of every topic only record 0 can be read.
\<close>

definition midway_world :: world where
  "midway_world = offline
     \<lparr> getMemoryCount_call := (\<lambda>a u h.
         if h = 16 then Inr 2 else Inl (Error TransportError (lit ''fetch failed''))),
       getMemory_call := (\<lambda>a u h i.
         if i = 0 then Inr \<lparr> cm_timestamp = 7, cm_writer = lit ''0xw'', cm_content = lit ''fact'' \<rparr>
         else Inl (Error TransportError (lit ''fetch failed''))) \<rparr>"

text \<open>The same world with both records of \<open>identity_profile\<close> readable.\<close>

definition two_records_world :: world where
  "two_records_world = midway_world
     \<lparr> getMemory_call := (\<lambda>a u h i.
         Inr \<lparr> cm_timestamp = 7 + i, cm_writer = lit ''0xw'', cm_content = lit ''fact'' \<rparr>) \<rparr>"

section \<open>Notions used to state the properties of the HTTP service\<close>

definition sample_env :: worker_env where
  "sample_env = \<lparr> env_RPC_URL = lit ''http://rpc'', env_PRIVATE_KEY = lit ''11'',
                  env_MEMORY_VAULT_ADDRESS = lit ''0xvault'' \<rparr>"

text \<open>A request without a body, and a POST to \<open>/store-memory\<close> with a JSON value.\<close>

definition bodyless_request :: "jsstring \<Rightarrow> jsstring \<Rightarrow> request" where
  "bodyless_request m p =
     \<lparr> req_method = m, req_pathname = p,
       req_json = Inl (Error SyntaxError (lit ''Unexpected end of JSON input'')) \<rparr>"

definition store_request :: "json \<Rightarrow> request" where
  "store_request v =
     \<lparr> req_method = lit ''POST'', req_pathname = lit ''/store-memory'', req_json = Inr v \<rparr>"

text \<open>The three properties of a body, and a body that has them as strings.\<close>

definition required_properties :: "jsstring list" where
  "required_properties = [lit ''user_address'', lit ''topic'', lit ''content'']"

definition full_body :: json where
  "full_body = JObj [(lit ''user_address'', JStr (lit ''0xuser'')),
                     (lit ''topic'', JStr (lit ''preferences'')),
                     (lit ''content'', JStr (lit ''likes tea''))]"

text \<open>
  A world in which the ledger accepts every transaction and returns a record for every
  read.
\<close>

definition accepting_world :: world where
  "accepting_world = offline
     \<lparr> getLatestMemory_call := (\<lambda>a u h.
         Inr \<lparr> cm_timestamp = 7, cm_writer = lit ''0xw'', cm_content = lit ''fact'' \<rparr>),
       storeMemoryFor_call := (\<lambda>a u h c. Inr (lit ''0xtx'')) \<rparr>"

section \<open>Properties of the configuration\<close>

lemma trim_empty_iff: "trim s = [] \<longleftrightarrow> list_all isWhiteSpace s"
proof -
  have "trim s = [] \<longleftrightarrow> dropWhile isWhiteSpace (rev (dropWhile isWhiteSpace s)) = []"
    by (simp add: trim_def)
  also have "\<dots> \<longleftrightarrow> dropWhile isWhiteSpace s = []"
  proof (cases "dropWhile isWhiteSpace s")
    case Nil
    show ?thesis unfolding Nil by simp
  next
    case (Cons x xs)
    have "\<not> isWhiteSpace x"
      using hd_dropWhile [of isWhiteSpace s] unfolding Cons by simp
    then show ?thesis unfolding Cons
      by (auto simp: dropWhile_eq_Nil_conv)
  qed
  also have "\<dots> \<longleftrightarrow> list_all isWhiteSpace s"
    by (simp add: dropWhile_eq_Nil_conv list_all_iff)
  finally show ?thesis .
qed

lemma safe_blank: "safe v = (if blank v then None else Some (trim (the v)))"
  by (cases v) (simp_all add: safe_def blank_def truthy_def trim_empty_iff)

lemma truthy_safe: "truthy (safe v) \<longleftrightarrow> \<not> blank v"
  by (cases v) (simp_all add: safe_def blank_def truthy_def trim_empty_iff)

lemma truthy_trim: "\<not> blank v \<Longrightarrow> truthy (Some (trim (the v)))"
  by (cases v) (simp_all add: truthy_def blank_def trim_empty_iff)

lemma lor_safe: "lor (safe a) x = (if blank a then x else Some (trim (the a)))"
proof -
  have "lor (safe a) x = (if blank a then x else safe a)"
    by (simp add: lor_def truthy_safe)
  then show ?thesis
    by (simp add: safe_blank)
qed

lemma lor_safe_chain:
  "lor (lor (safe a) (safe b)) (safe c) = resolve [a, b, c]"
proof (cases "blank a")
  case True
  then show ?thesis
    by (simp add: lor_safe) (simp add: safe_blank)
next
  case False
  then show ?thesis
    by (simp add: lor_safe) (simp add: lor_def truthy_trim)
qed

lemma truthy_resolve: "truthy (resolve vs) \<longleftrightarrow> resolve vs \<noteq> None"
proof (induction vs)
  case Nil
  then show ?case by (simp add: truthy_def)
next
  case (Cons v vs)
  then show ?case
    by (cases v) (simp_all add: truthy_def blank_def trim_empty_iff)
qed

lemma lor_str_resolve:
  "lor_str (resolve vs) d = (case resolve vs of None \<Rightarrow> d | Some s \<Rightarrow> s)"
  using truthy_resolve [of vs] by (cases "resolve vs") (simp_all add: lor_str_def)

lemma resolve_None_iff: "resolve vs = None \<longleftrightarrow> list_all blank vs"
  by (induction vs) simp_all

lemma or_default_empty_iff: "or_default (resolve vs) [] = [] \<longleftrightarrow> list_all blank vs"
  using truthy_resolve [of vs] resolve_None_iff [of vs]
  by (cases "resolve vs") (simp_all add: or_default_def truthy_def)

lemma getEnv_fields:
  "cfg_ANTHROPIC_API_KEY (getEnv env vars penv)
     = or_default (resolve (sources env vars penv ANTHROPIC_API_KEY)) []"
  "cfg_RPC_URL (getEnv env vars penv) = or_default (resolve (sources env vars penv RPC_URL)) []"
  "cfg_MEMORY_VAULT_ADDRESS (getEnv env vars penv)
     = resolve (sources env vars penv MEMORY_VAULT_ADDRESS)"
  "cfg_USER_ADDRESS (getEnv env vars penv) = resolve (sources env vars penv USER_ADDRESS)"
  "cfg_AGENT_PRIVATE_KEY (getEnv env vars penv)
     = or_default (resolve (sources env vars penv AGENT_PRIVATE_KEY)) []"
  "cfg_MODEL_ID (getEnv env vars penv)
     = or_default (resolve (sources env vars penv MODEL_ID)) (lit ''claude-3-5-sonnet-20241022'')"
  unfolding getEnv_def sources_def or_default_def lor_safe_chain lor_str_resolve
  by (simp_all add: lit_def)

lemma getEnv2_fields:
  "cfg2_ANTHROPIC_API_KEY (getEnv2 env vars penv)
     = or_default (resolve (sources env vars penv ANTHROPIC_API_KEY)) []"
  "cfg2_RPC_URL (getEnv2 env vars penv) = or_default (resolve (sources env vars penv RPC_URL)) []"
  "cfg2_MEMORY_VAULT_ADDRESS (getEnv2 env vars penv)
     = resolve (sources env vars penv MEMORY_VAULT_ADDRESS)"
  "cfg2_USER_ADDRESS (getEnv2 env vars penv) = resolve (sources env vars penv USER_ADDRESS)"
  "cfg2_MODEL_ID (getEnv2 env vars penv)
     = or_default (resolve (sources env vars penv MODEL_ID)) (lit ''claude-sonnet-4-20250514'')"
  unfolding getEnv2_def sources_def or_default_def lor_safe_chain lor_str_resolve
  by (simp_all add: lit_def)

lemma initialize_exit_iff:
  "initialize pk env vars penv = ProcessExit 1
     \<longleftrightarrow> list_ex (\<lambda>f. list_all blank (sources env vars penv f)) required"
  unfolding initialize_def Let_def getEnv_fields or_default_empty_iff truthy_resolve
    resolve_None_iff required_def
  by (simp split: sum.splits)

lemma initialize2_exit_iff:
  "initialize2 vars penv = ProcessExit 1
     \<longleftrightarrow> list_ex (\<lambda>f. list_all blank (sources None vars penv f)) required2"
  unfolding initialize2_def Let_def getEnv2_fields or_default_empty_iff truthy_resolve
    resolve_None_iff required2_def
  by simp

text \<open>
  Claim C10. \<open>getEnv\<close> resolves every variable to the trimmed first value, in the
  order explicit argument, wrangler.jsonc vars, process.env, that is neither missing
  nor white space only (\<open>resolve\<close> over \<open>sources\<close>); a variable without such a value
  is the empty string or undefined, and \<open>MODEL_ID\<close> is the fixed default model. The
  start-up exits with status 1 exactly when one of the required variables has no such
  value in any source, so a required variable whose only values are white space is
  fatal. Both agents.
\<close>

theorem getEnv_resolution:
  "cfg_ANTHROPIC_API_KEY (getEnv env vars penv)
     = or_default (resolve (sources env vars penv ANTHROPIC_API_KEY)) []
   \<and> cfg_RPC_URL (getEnv env vars penv) = or_default (resolve (sources env vars penv RPC_URL)) []
   \<and> cfg_MEMORY_VAULT_ADDRESS (getEnv env vars penv)
       = resolve (sources env vars penv MEMORY_VAULT_ADDRESS)
   \<and> cfg_USER_ADDRESS (getEnv env vars penv) = resolve (sources env vars penv USER_ADDRESS)
   \<and> cfg_AGENT_PRIVATE_KEY (getEnv env vars penv)
       = or_default (resolve (sources env vars penv AGENT_PRIVATE_KEY)) []
   \<and> cfg_MODEL_ID (getEnv env vars penv)
       = or_default (resolve (sources env vars penv MODEL_ID)) (lit ''claude-3-5-sonnet-20241022'')
   \<and> cfg2_ANTHROPIC_API_KEY (getEnv2 env vars penv)
       = or_default (resolve (sources env vars penv ANTHROPIC_API_KEY)) []
   \<and> cfg2_RPC_URL (getEnv2 env vars penv) = or_default (resolve (sources env vars penv RPC_URL)) []
   \<and> cfg2_MEMORY_VAULT_ADDRESS (getEnv2 env vars penv)
       = resolve (sources env vars penv MEMORY_VAULT_ADDRESS)
   \<and> cfg2_USER_ADDRESS (getEnv2 env vars penv) = resolve (sources env vars penv USER_ADDRESS)
   \<and> cfg2_MODEL_ID (getEnv2 env vars penv)
       = or_default (resolve (sources env vars penv MODEL_ID)) (lit ''claude-sonnet-4-20250514'')
   \<and> (initialize pk env vars penv = ProcessExit 1
        \<longleftrightarrow> list_ex (\<lambda>f. list_all blank (sources env vars penv f)) required)
   \<and> (initialize2 vars penv = ProcessExit 1
        \<longleftrightarrow> list_ex (\<lambda>f. list_all blank (sources None vars penv f)) required2)"
  using getEnv_fields [of env vars penv] getEnv2_fields [of env vars penv]
    initialize_exit_iff [of pk env vars penv] initialize2_exit_iff [of vars penv]
  by blast

text \<open>
  An instance: every required variable is set in process.env, but wrangler.jsonc gives
  \<open>USER_ADDRESS\<close> as three spaces and process.env as a tab. The user address resolves
  to undefined, the model to the default, and the start-up exits with status 1.
\<close>

theorem getEnv_resolution_witness:
  "cfg_USER_ADDRESS
     (getEnv None (no_env\<lparr>USER_ADDRESS := Some (lit ''   '')\<rparr>)
        (no_env\<lparr>ANTHROPIC_API_KEY := Some (lit ''k''), RPC_URL := Some (lit '' http://rpc ''),
           MEMORY_VAULT_ADDRESS := Some (lit ''0xab''), USER_ADDRESS := Some [0x9],
           AGENT_PRIVATE_KEY := Some (lit ''11'')\<rparr>)) = None
   \<and> cfg_RPC_URL
     (getEnv None (no_env\<lparr>USER_ADDRESS := Some (lit ''   '')\<rparr>)
        (no_env\<lparr>ANTHROPIC_API_KEY := Some (lit ''k''), RPC_URL := Some (lit '' http://rpc ''),
           MEMORY_VAULT_ADDRESS := Some (lit ''0xab''), USER_ADDRESS := Some [0x9],
           AGENT_PRIVATE_KEY := Some (lit ''11'')\<rparr>)) = lit ''http://rpc''
   \<and> initialize (\<lambda>k. Inr k) None (no_env\<lparr>USER_ADDRESS := Some (lit ''   '')\<rparr>)
        (no_env\<lparr>ANTHROPIC_API_KEY := Some (lit ''k''), RPC_URL := Some (lit '' http://rpc ''),
           MEMORY_VAULT_ADDRESS := Some (lit ''0xab''), USER_ADDRESS := Some [0x9],
           AGENT_PRIVATE_KEY := Some (lit ''11'')\<rparr>) = ProcessExit 1"
  using getEnv_resolution [of None "no_env\<lparr>USER_ADDRESS := Some (lit ''   '')\<rparr>"
      "no_env\<lparr>ANTHROPIC_API_KEY := Some (lit ''k''), RPC_URL := Some (lit '' http://rpc ''),
           MEMORY_VAULT_ADDRESS := Some (lit ''0xab''), USER_ADDRESS := Some [0x9],
           AGENT_PRIVATE_KEY := Some (lit ''11'')\<rparr>" "\<lambda>k. Inr k"]
  by (simp add: sources_def required_def or_default_def blank_def opt_field_def no_env_def
      isWhiteSpace_def trim_def lit_def)

section \<open>Properties of the topic key\<close>

text \<open>
  The key of a topic is \<open>keccak256\<close> of the bytes of the topic and of nothing else:
  \<open>topicHash\<close> applies no step between \<open>stringToBytes\<close> and the hash. The
  lemmas below are about the bytes: a topic of ASCII characters is encoded character by
  character, so two different such topics (in case or in white space, too) have
  different byte sequences.
\<close>

lemma ascii_not_surrogate: "isAscii c \<Longrightarrow> \<not> isHighSurrogate c \<and> \<not> isLowSurrogate c"
  by (auto simp: isAscii_def isHighSurrogate_def isLowSurrogate_def word_less_nat_alt
      word_le_nat_alt)

lemma scalar_ascii: "isAscii c \<Longrightarrow> scalar c = unat c"
  by (simp add: scalar_def ascii_not_surrogate)

lemma code_points_ascii: "list_all isAscii s \<Longrightarrow> code_points s = map unat s"
proof (induction s rule: code_points.induct)
  case 1
  then show ?case by simp
next
  case (2 c)
  then show ?case by (simp add: scalar_ascii)
next
  case (3 c d cs)
  then have "\<not> isHighSurrogate c"
    by (simp add: ascii_not_surrogate)
  with 3 show ?case by (simp add: scalar_ascii)
qed

lemma utf8_ascii: "isAscii c \<Longrightarrow> utf8 (unat c) = [ucast c]"
proof -
  assume "isAscii c"
  then have "unat c < 0x80"
    by (simp add: isAscii_def word_less_nat_alt)
  then show ?thesis
    by (simp add: utf8_def)
qed

lemma stringToBytes_ascii: "list_all isAscii s \<Longrightarrow> stringToBytes s = map ucast s"
  by (induction s) (simp_all add: stringToBytes_def code_points_ascii utf8_ascii)

lemma ucast_ascii_inj:
  assumes "isAscii a" "isAscii b" "(ucast a :: 8 word) = ucast b"
  shows "a = b"
proof -
  have a: "unat a < 0x80" and b: "unat b < 0x80"
    using assms(1,2) by (simp_all add: isAscii_def word_less_nat_alt)
  have "unat (ucast a :: 8 word) = unat (ucast b :: 8 word)"
    using assms(3) by simp
  then have "unat a mod 256 = unat b mod 256"
    by (simp add: unsigned_ucast_eq take_bit_eq_mod)
  with a b have "unat a = unat b"
    by simp
  then show ?thesis
    by (simp add: word_unat_eq_iff)
qed

lemma map_ucast_ascii_inj:
  "list_all isAscii s \<Longrightarrow> list_all isAscii t
   \<Longrightarrow> map (ucast :: 16 word \<Rightarrow> 8 word) s = map ucast t \<Longrightarrow> s = t"
proof (induction s arbitrary: t)
  case Nil
  then show ?case by simp
next
  case (Cons a s)
  then obtain b t' where t: "t = b # t'"
    by (cases t) auto
  with Cons.prems have "a = b"
    by (auto intro: ucast_ascii_inj)
  moreover from t Cons have "s = t'"
    by simp
  ultimately show ?case
    using t by simp
qed

lemma stringToBytes_ascii_inj:
  "list_all isAscii s \<Longrightarrow> list_all isAscii t \<Longrightarrow> stringToBytes s = stringToBytes t
   \<Longrightarrow> s = t"
  by (simp add: stringToBytes_ascii map_ucast_ascii_inj)

section \<open>Properties of agent-app\<close>

lemma andThen_Inl [simp]: "andThen (Inl e, tr) f = (Inl e, tr)"
  by (simp add: andThen_def)

lemma andThen_Inr [simp]: "andThen (Inr x, tr) f = (fst (f x), tr @ snd (f x))"
  by (simp add: andThen_def split: prod.splits)

lemma andThen_emit [simp]: "andThen (emit ev) f = (fst (f ()), ev # snd (f ()))"
  by (simp add: emit_def)

lemma getLatestMemory_latest: "getLatestMemory L W config t = (Inr (latest L W config t), [])"
  by (simp add: getLatestMemory_def latest_def Let_def split: sum.splits)

text \<open>
  Claim C2 as stated fails: without network the read throws a transport error, and
  \<open>getLatestMemory\<close> returns \<open>null\<close>, as it does for an absent record.
\<close>

theorem getLatestMemory_transport_failure:
  "getLatestMemory_call offline (cfg_MEMORY_VAULT_ADDRESS sample_config)
       (cfg_USER_ADDRESS sample_config) (topicHash (keccak256 toy_libs) (lit ''preferences''))
     = Inl (Error TransportError (lit ''fetch failed''))
   \<and> getLatestMemory toy_libs offline sample_config (lit ''preferences'') = (Inr None, [])"
  by (simp add: getLatestMemory_latest latest_def offline_def)

text \<open>
  Claim C2, amended. \<open>getLatestMemory\<close> never throws. It returns \<open>null\<close> exactly when
  the ledger read throws, whatever the error (a revert of the contract or a transport
  failure alike), and the record with its topic when the read returns.
\<close>

theorem getLatestMemory_total:
  "(\<exists>m. getLatestMemory L W config t = (Inr m, []))
   \<and> (fst (getLatestMemory L W config t) = Inr None
        \<longleftrightarrow> (\<exists>e. getLatestMemory_call W (cfg_MEMORY_VAULT_ADDRESS config) (cfg_USER_ADDRESS config)
                   (topicHash (keccak256 L) t) = Inl e))
   \<and> (\<forall>r. getLatestMemory_call W (cfg_MEMORY_VAULT_ADDRESS config) (cfg_USER_ADDRESS config)
              (topicHash (keccak256 L) t) = Inr r
        \<longrightarrow> fst (getLatestMemory L W config t)
            = Inr (Some \<lparr> m_topic = t, m_content = cm_content r, m_timestamp = cm_timestamp r,
                          m_writer = cm_writer r \<rparr>))"
  by (auto simp: getLatestMemory_latest latest_def split: sum.splits)

text \<open>
  An instance: the ledger returns a record for every topic; the read of
  \<open>preferences\<close> gives that record with its topic.
\<close>

theorem getLatestMemory_total_witness:
  "fst (getLatestMemory toy_libs
          (offline\<lparr>getLatestMemory_call :=
             (\<lambda>a u h. Inr \<lparr> cm_timestamp = 7, cm_writer = lit ''0xw'', cm_content = lit ''tea'' \<rparr>)\<rparr>)
          sample_config (lit ''preferences''))
     = Inr (Some \<lparr> m_topic = lit ''preferences'', m_content = lit ''tea'', m_timestamp = 7,
                   m_writer = lit ''0xw'' \<rparr>)"
  using getLatestMemory_total [of toy_libs
      "offline\<lparr>getLatestMemory_call :=
         (\<lambda>a u h. Inr \<lparr> cm_timestamp = 7, cm_writer = lit ''0xw'', cm_content = lit ''tea'' \<rparr>)\<rparr>"
      sample_config "lit ''preferences''"]
  by simp

lemma zod_optional_string_fails_iff:
  "(\<exists>e. zod_optional_string v = Inl e) \<longleftrightarrow> \<not> missing_or_string v"
  by (auto simp: zod_optional_string_def missing_or_string_def split: option.splits json.splits)

lemma schema_fails_iff: "(\<exists>e. MemoryDecisionSchema_parse v = Inl e) \<longleftrightarrow> \<not> conforms v"
proof (cases v)
  case (JObj kvs)
  show ?thesis
    using zod_optional_string_fails_iff [of "map_of kvs (lit ''topic'')"]
      zod_optional_string_fails_iff [of "map_of kvs (lit ''summary'')"]
    unfolding JObj
    by (auto simp: MemoryDecisionSchema_parse_def conforms_def
        split: option.splits json.splits sum.splits)
qed (simp_all add: MemoryDecisionSchema_parse_def conforms_def)

lemma missing_should_store: "map_of kvs (lit ''should_store'') = None \<Longrightarrow> \<not> conforms (JObj kvs)"
  by (simp add: conforms_def)

lemma decideMemory_on_text:
  assumes "generateText W (decide_request config msg ms) = Inr text"
  shows "decideMemory L W config msg ms
    = (case JSON_parse L text of
         Inl e \<Rightarrow> (Inr fail_safe, [ModelCall (decide_request config msg ms), LogParseError])
       | Inr v \<Rightarrow>
           (case MemoryDecisionSchema_parse v of
              Inl e \<Rightarrow> (Inr fail_safe, [ModelCall (decide_request config msg ms), LogParseError])
            | Inr d \<Rightarrow> (Inr d, [ModelCall (decide_request config msg ms)])))"
  using assms by (simp add: decideMemory_def fail_safe_def split: sum.splits)

lemma decideMemory_model_failure:
  "generateText W (decide_request config msg ms) = Inl e
   \<Longrightarrow> decideMemory L W config msg ms = (Inl e, [ModelCall (decide_request config msg ms)])"
  by (simp add: decideMemory_def)

text \<open>
  Claim C3. For every text the model returns that is not JSON, or is JSON that violates
  the Decision schema (an object without \<open>should_store\<close> is such a value),
  \<open>decideMemory\<close> returns the fail-safe decision \<open>{ should_store: false }\<close> and does
  not throw; it prints the parse warning.
\<close>

theorem decideMemory_fail_safe:
  "(generateText W (decide_request config msg ms) = Inr text
     \<and> ((\<exists>e. JSON_parse L text = Inl e)
         \<or> (\<exists>v e. JSON_parse L text = Inr v \<and> MemoryDecisionSchema_parse v = Inl e))
    \<longrightarrow> decideMemory L W config msg ms
        = (Inr \<lparr> should_store = False, d_topic = None, d_summary = None \<rparr>,
           [ModelCall (decide_request config msg ms), LogParseError]))
   \<and> ((\<exists>e. MemoryDecisionSchema_parse v = Inl e) \<longleftrightarrow> \<not> conforms v)
   \<and> (map_of kvs (lit ''should_store'') = None \<longrightarrow> \<not> conforms (JObj kvs))"
proof (intro impI conjI)
  assume a: "generateText W (decide_request config msg ms) = Inr text
     \<and> ((\<exists>e. JSON_parse L text = Inl e)
         \<or> (\<exists>v e. JSON_parse L text = Inr v \<and> MemoryDecisionSchema_parse v = Inl e))"
  then consider (not_json) e where "JSON_parse L text = Inl e"
    | (bad_shape) v e where "JSON_parse L text = Inr v" "MemoryDecisionSchema_parse v = Inl e"
    by blast
  then show "decideMemory L W config msg ms
        = (Inr \<lparr> should_store = False, d_topic = None, d_summary = None \<rparr>,
           [ModelCall (decide_request config msg ms), LogParseError])"
  proof cases
    case not_json
    with a show ?thesis
      by (simp add: decideMemory_on_text fail_safe_def)
  next
    case bad_shape
    with a show ?thesis
      by (simp add: decideMemory_on_text fail_safe_def)
  qed
next
  show "(\<exists>e. MemoryDecisionSchema_parse v = Inl e) \<longleftrightarrow> \<not> conforms v"
    by (rule schema_fails_iff)
next
  assume "map_of kvs (lit ''should_store'') = None"
  then show "\<not> conforms (JObj kvs)"
    by (rule missing_should_store)
qed

text \<open>
  An instance: the model answers \<open>{}\<close>, which is JSON without \<open>should_store\<close>; the
  schema rejects it and the decision is the fail-safe one.
\<close>

theorem decideMemory_fail_safe_witness:
  "fst (decideMemory toy_libs (offline\<lparr>generateText := (\<lambda>rq. Inr (lit ''{}''))\<rparr>) sample_config
          (lit ''hello'') [])
     = Inr \<lparr> should_store = False, d_topic = None, d_summary = None \<rparr>"
proof -
  note T = decideMemory_fail_safe [of "offline\<lparr>generateText := (\<lambda>rq. Inr (lit ''{}''))\<rparr>"
        sample_config "lit ''hello''" "[]" "lit ''{}''" toy_libs "JObj []" "[]"]
  have parsed: "JSON_parse toy_libs (lit ''{}'') = Inr (JObj [])"
    by (simp add: toy_libs_def)
  have "\<not> conforms (JObj [])"
    using T by simp
  then obtain e where "MemoryDecisionSchema_parse (JObj []) = Inl e"
    using T by blast
  with parsed show ?thesis
    using T by simp
qed

lemma reading_eq:
  "reading L W config ts acc
     = (Inr (acc @ retrieved L W config ts), map LogMemory (map (latest L W config) ts))"
proof (induction ts arbitrary: acc)
  case Nil
  then show ?case by (simp add: retrieved_def map_filter_simps)
next
  case (Cons t ts)
  then show ?case
    by (cases "latest L W config t")
      (simp_all add: getLatestMemory_latest retrieved_def map_filter_simps)
qed

lemma truthy_iff: "truthy v \<longleftrightarrow> v \<noteq> None \<and> v \<noteq> Some []"
  by (cases v) (simp_all add: truthy_def)

lemma writing_eq:
  "writing L W config d
     = (Inr (),
        if actionable d
        then [LogStoring (the (d_topic d)),
              StoreCall (cfg_MEMORY_VAULT_ADDRESS config) (cfg_USER_ADDRESS config)
                (topicHash (keccak256 L) (the (d_topic d))) (the (d_summary d)),
              (case storeMemoryFor_call W (cfg_MEMORY_VAULT_ADDRESS config) (cfg_USER_ADDRESS config)
                      (topicHash (keccak256 L) (the (d_topic d))) (the (d_summary d)) of
                 Inr tx \<Rightarrow> LogStored tx
               | Inl err \<Rightarrow> LogStoreFailed err)]
        else [LogNoStore])"
  by (simp add: writing_def actionable_def truthy_iff storeMemory_def Let_def emit_def
      split: sum.splits)

lemma answerUser_eq:
  "answerUser W config msg ms
     = (generateText W (answer_request config msg ms), [ModelCall (answer_request config msg ms)])"
  by (simp add: answerUser_def)

lemma turn_eq:
  "turn L W config msg
     = (let ms = retrieved L W config topics;
            pre = map LogMemory (map (latest L W config) topics)
                    @ [LogMemories ms, ModelCall (answer_request config msg ms)]
        in case generateText W (answer_request config msg ms) of
             Inl e \<Rightarrow> (Inl e, pre)
           | Inr reply \<Rightarrow>
               (case decideMemory L W config msg ms of
                  (Inl e, tr) \<Rightarrow> (Inl e, pre @ [LogReply reply] @ tr)
                | (Inr d, tr) \<Rightarrow> (Inr (), pre @ [LogReply reply] @ tr @ snd (writing L W config d))))"
proof (cases "generateText W (answer_request config msg (retrieved L W config topics))")
  case (Inl e)
  then show ?thesis
    by (simp add: turn_def reading_eq answerUser_eq Let_def)
next
  case (Inr reply)
  then show ?thesis
    by (cases "decideMemory L W config msg (retrieved L W config topics)"; 
        cases "fst (decideMemory L W config msg (retrieved L W config topics))")
      (simp_all add: turn_def reading_eq answerUser_eq Let_def writing_eq)
qed

lemma store_calls_append [simp]: "store_calls (xs @ ys) = store_calls xs @ store_calls ys"
  by (simp add: store_calls_def)

lemma store_calls_LogMemory [simp]: "store_calls (map LogMemory xs) = []"
  by (induction xs) (simp_all add: store_calls_def)

lemma store_calls_decideMemory [simp]: "store_calls (snd (decideMemory L W config msg ms)) = []"
  by (cases "generateText W (decide_request config msg ms)")
    (simp_all add: decideMemory_model_failure decideMemory_on_text store_calls_def
      split: sum.splits)

lemma store_calls_writing:
  "store_calls (snd (writing L W config d))
     = (if actionable d
        then [StoreCall (cfg_MEMORY_VAULT_ADDRESS config) (cfg_USER_ADDRESS config)
                (topicHash (keccak256 L) (the (d_topic d))) (the (d_summary d))]
        else [])"
  by (simp add: writing_eq store_calls_def split: sum.splits)

lemma retrieved_iff:
  "m \<in> set (retrieved L W config ts) \<longleftrightarrow> (\<exists>t \<in> set ts. latest L W config t = Some m)"
  by (induction ts) (auto simp: retrieved_def map_filter_simps split: option.splits)

lemma latest_topic: "latest L W config t = Some m \<Longrightarrow> m_topic m = t"
  by (auto simp: latest_def split: sum.splits)

text \<open>
  Claim C4. The last step of a turn submits exactly one store transaction, with the
  summary as content under the key of the topic, when the decision has \<open>should_store\<close>
  true and a topic and a summary that are present and not empty, and none for any other
  decision. So does the whole turn that reaches this decision; a turn that ends before
  it has a decision submits none.
\<close>

theorem store_iff_actionable:
  "store_calls (snd (writing L W config d))
     = (if actionable d
        then [StoreCall (cfg_MEMORY_VAULT_ADDRESS config) (cfg_USER_ADDRESS config)
                (topicHash (keccak256 L) (the (d_topic d))) (the (d_summary d))]
        else [])
   \<and> (length (store_calls (snd (writing L W config d))) = 1 \<longleftrightarrow> actionable d)
   \<and> (generateText W (answer_request config msg (retrieved L W config topics)) = Inr reply
        \<and> fst (decideMemory L W config msg (retrieved L W config topics)) = Inr d
        \<longrightarrow> store_calls (snd (turn L W config msg)) = store_calls (snd (writing L W config d)))
   \<and> (fst (turn L W config msg) \<noteq> Inr () \<longrightarrow> store_calls (snd (turn L W config msg)) = [])"
proof (intro conjI impI)
  show "store_calls (snd (writing L W config d))
     = (if actionable d
        then [StoreCall (cfg_MEMORY_VAULT_ADDRESS config) (cfg_USER_ADDRESS config)
                (topicHash (keccak256 L) (the (d_topic d))) (the (d_summary d))]
        else [])"
    by (rule store_calls_writing)
  then show "length (store_calls (snd (writing L W config d))) = 1 \<longleftrightarrow> actionable d"
    by simp
next
  assume "generateText W (answer_request config msg (retrieved L W config topics)) = Inr reply
        \<and> fst (decideMemory L W config msg (retrieved L W config topics)) = Inr d"
  then show "store_calls (snd (turn L W config msg)) = store_calls (snd (writing L W config d))"
    by (cases "decideMemory L W config msg (retrieved L W config topics)")
      (use store_calls_decideMemory [of L W config msg "retrieved L W config topics"] in
        \<open>simp add: turn_eq Let_def store_calls_def\<close>)
next
  assume "fst (turn L W config msg) \<noteq> Inr ()"
  then show "store_calls (snd (turn L W config msg)) = []"
    by (cases "decideMemory L W config msg (retrieved L W config topics)")
      (use store_calls_decideMemory [of L W config msg "retrieved L W config topics"] in
        \<open>auto simp: turn_eq Let_def store_calls_def split: sum.splits\<close>)
qed

subsection \<open>The sample worlds\<close>

lemma prompts_differ: "decide_systemPrompt \<noteq> answer_systemPrompt"
  by (simp add: decide_systemPrompt_def answer_systemPrompt_def lit_def)

lemma alex_answer:
  "generateText alex_world (answer_request sample_config msg ms) = Inr (lit ''Nice to meet you, Alex.'')"
  by (simp add: alex_world_def answer_request_def Let_def)

lemma alex_decide_text: "generateText alex_world (decide_request sample_config msg ms) = Inr alex_text"
  by (simp add: alex_world_def decide_request_def Let_def prompts_differ)

lemma alex_text_not_empty_object: "alex_text \<noteq> lit ''{}''"
  by (simp add: alex_text_def lit_def quoted_def)

lemma alex_schema:
  "MemoryDecisionSchema_parse
     (JObj [(lit ''should_store'', JBool True), (lit ''topic'', JStr (lit ''identity_profile'')),
            (lit ''summary'', JStr (lit ''User's name is Alex''))]) = Inr alex_decision"
  by (simp add: MemoryDecisionSchema_parse_def zod_optional_string_def alex_decision_def lit_def)

lemma alex_decideMemory:
  "decideMemory toy_libs alex_world sample_config msg ms
     = (Inr alex_decision, [ModelCall (decide_request sample_config msg ms)])"
  by (simp add: decideMemory_on_text [OF alex_decide_text] toy_libs_def
      alex_text_not_empty_object alex_schema)

lemma alex_actionable: "actionable alex_decision"
  by (simp add: actionable_def alex_decision_def lit_def)

lemma alex_rejecting_answer:
  "generateText alex_world_rejecting (answer_request sample_config msg ms)
     = Inr (lit ''Nice to meet you, Alex.'')"
  using alex_answer [of msg ms] by (simp add: alex_world_rejecting_def)

lemma alex_rejecting_decideMemory:
  "decideMemory toy_libs alex_world_rejecting sample_config msg ms
     = (Inr alex_decision, [ModelCall (decide_request sample_config msg ms)])"
proof -
  have "generateText alex_world_rejecting (decide_request sample_config msg ms) = Inr alex_text"
    using alex_decide_text [of msg ms] by (simp add: alex_world_rejecting_def)
  then show ?thesis
    by (simp add: decideMemory_on_text toy_libs_def alex_text_not_empty_object alex_schema)
qed

text \<open>
  Instances. The scenario of the specification: the user gives a name, the model
  proposes to store it, and the turn submits one transaction with the summary under
  the key of \<open>identity_profile\<close>. And a turn without network: the reply cannot be
  generated, the turn throws and has submitted nothing.
\<close>

theorem store_iff_actionable_witness:
  "store_calls (snd (turn toy_libs alex_world sample_config (lit ''My name is Alex, remember that.'')))
     = [StoreCall (Some (lit ''0xvault'')) (Some (lit ''0xuser''))
          (topicHash (keccak256 toy_libs) (lit ''identity_profile'')) (lit ''User's name is Alex'')]
   \<and> fst (turn toy_libs offline sample_config (lit ''hi''))
       = Inl (Error TransportError (lit ''fetch failed''))
   \<and> store_calls (snd (turn toy_libs offline sample_config (lit ''hi''))) = []"
proof (intro conjI)
  have "fst (decideMemory toy_libs alex_world sample_config (lit ''My name is Alex, remember that.'')
          (retrieved toy_libs alex_world sample_config topics)) = Inr alex_decision"
    by (simp add: alex_decideMemory)
  then have "store_calls (snd (turn toy_libs alex_world sample_config
                (lit ''My name is Alex, remember that.'')))
             = store_calls (snd (writing toy_libs alex_world sample_config alex_decision))"
    using store_iff_actionable [of toy_libs alex_world sample_config alex_decision
        "lit ''My name is Alex, remember that.''" "lit ''Nice to meet you, Alex.''"]
      alex_answer
    by blast
  also have "\<dots> = [StoreCall (cfg_MEMORY_VAULT_ADDRESS sample_config) (cfg_USER_ADDRESS sample_config)
                (topicHash (keccak256 toy_libs) (the (d_topic alex_decision)))
                (the (d_summary alex_decision))]"
    using store_iff_actionable [of toy_libs alex_world sample_config alex_decision]
      alex_actionable
    by simp
  finally show "store_calls (snd (turn toy_libs alex_world sample_config
        (lit ''My name is Alex, remember that.'')))
     = [StoreCall (Some (lit ''0xvault'')) (Some (lit ''0xuser''))
          (topicHash (keccak256 toy_libs) (lit ''identity_profile'')) (lit ''User's name is Alex'')]"
    by (simp add: sample_config_def alex_decision_def)
next
  show failed: "fst (turn toy_libs offline sample_config (lit ''hi''))
       = Inl (Error TransportError (lit ''fetch failed''))"
    by (simp add: turn_eq Let_def offline_def)
  then have "fst (turn toy_libs offline sample_config (lit ''hi'')) \<noteq> Inr ()"
    by simp
  then show "store_calls (snd (turn toy_libs offline sample_config (lit ''hi''))) = []"
    using store_iff_actionable [of toy_libs offline sample_config _ "lit ''hi''"]
    by blast
qed

subsection \<open>Reading and writing within a turn\<close>

lemma decideMemory_Inl_iff:
  "fst (decideMemory L W config msg ms) = Inl e
     \<longleftrightarrow> generateText W (decide_request config msg ms) = Inl e"
  by (cases "generateText W (decide_request config msg ms)")
    (simp_all add: decideMemory_model_failure decideMemory_on_text split: sum.splits)

lemma turn_Inl_iff:
  "fst (turn L W config msg) = Inl e
     \<longleftrightarrow> generateText W (answer_request config msg (retrieved L W config topics)) = Inl e
         \<or> ((\<exists>reply. generateText W (answer_request config msg (retrieved L W config topics)) = Inr reply)
            \<and> generateText W (decide_request config msg (retrieved L W config topics)) = Inl e)"
proof (cases "generateText W (answer_request config msg (retrieved L W config topics))")
  case (Inl e')
  then show ?thesis
    by (simp add: turn_eq Let_def)
next
  case (Inr reply)
  then show ?thesis
    using decideMemory_Inl_iff [of L W config msg "retrieved L W config topics" e]
    by (cases "decideMemory L W config msg (retrieved L W config topics)";
        cases "fst (decideMemory L W config msg (retrieved L W config topics))")
      (simp_all add: turn_eq Let_def)
qed

lemma turn_completes:
  assumes "generateText W (answer_request config msg (retrieved L W config topics)) = Inr reply"
    and "decideMemory L W config msg (retrieved L W config topics) = (Inr d, tr)"
  shows "turn L W config msg
     = (Inr (),
        map LogMemory (map (latest L W config) topics)
          @ [LogMemories (retrieved L W config topics),
             ModelCall (answer_request config msg (retrieved L W config topics)), LogReply reply]
          @ tr @ snd (writing L W config d))"
  using assms by (simp add: turn_eq Let_def)

lemma join_member: "x \<in> set xs \<Longrightarrow> \<exists>pre post. join sep xs = pre @ x @ post"
proof (induction sep xs rule: join.induct)
  case (1 sep)
  then show ?case by simp
next
  case (2 sep y)
  then have "join sep [y] = [] @ x @ []"
    by simp
  then show ?case by blast
next
  case (3 sep y z zs)
  show ?case
  proof (cases "x = y")
    case True
    then have "join sep (y # z # zs) = [] @ x @ (sep @ join sep (z # zs))"
      by simp
    then show ?thesis by blast
  next
    case False
    with 3 obtain pre post where "join sep (z # zs) = pre @ x @ post"
      by auto
    then have "join sep (y # z # zs) = (y @ sep @ pre) @ x @ post"
      by simp
    then show ?thesis by blast
  qed
qed

lemma turn_prompt_eq:
  "turn_prompt memoriesText userMessage
     = [0xA] @ lit ''Memories:'' @ [0xA] @ memoriesText @ [0xA, 0xA] @ lit ''User: '' @ [0x22]
         @ userMessage @ [0x22, 0xA]"
  by (simp add: turn_prompt_def)

lemma answer_prompt_eq:
  "rq_prompt (answer_request config msg ms)
     = [0xA] @ lit ''Memories:'' @ [0xA]
         @ (if ms = [] then lit ''No memories stored.''
            else join [0xA] (map (\<lambda>m. lit ''- ['' @ m_topic m @ lit ''] '' @ m_content m) ms))
         @ [0xA, 0xA] @ lit ''User: '' @ [0x22] @ msg @ [0x22, 0xA]"
proof -
  have "memory_line = (\<lambda>m. lit ''- ['' @ m_topic m @ lit ''] '' @ m_content m)"
    by (rule ext) (simp add: memory_line_def)
  then show ?thesis
    by (simp add: answer_request_def Let_def turn_prompt_eq)
qed

lemma decide_prompt_eq:
  "rq_prompt (decide_request config msg ms)
     = [0xA] @ lit ''Memories:'' @ [0xA]
         @ (if ms = [] then lit ''No existing memories.''
            else join [0xA] (map (\<lambda>m. lit ''- ['' @ m_topic m @ lit ''] '' @ m_content m) ms))
         @ [0xA, 0xA] @ lit ''User: '' @ [0x22] @ msg @ [0x22, 0xA]"
proof -
  have "memory_line = (\<lambda>m. lit ''- ['' @ m_topic m @ lit ''] '' @ m_content m)"
    by (rule ext) (simp add: memory_line_def)
  then show ?thesis
    by (simp add: decide_request_def Let_def turn_prompt_eq)
qed

lemma answer_prompt_mentions:
  assumes "m \<in> set ms"
  shows "\<exists>pre post. rq_prompt (answer_request config msg ms)
           = pre @ (lit ''- ['' @ m_topic m @ lit ''] '' @ m_content m) @ post"
proof -
  from assms have ne: "ms \<noteq> []"
    by auto
  from assms have "lit ''- ['' @ m_topic m @ lit ''] '' @ m_content m
      \<in> set (map (\<lambda>m. lit ''- ['' @ m_topic m @ lit ''] '' @ m_content m) ms)"
    by (force simp: image_iff)
  then obtain pre post where
    "join [0xA] (map (\<lambda>m. lit ''- ['' @ m_topic m @ lit ''] '' @ m_content m) ms)
       = pre @ (lit ''- ['' @ m_topic m @ lit ''] '' @ m_content m) @ post"
    using join_member by blast
  with ne have "rq_prompt (answer_request config msg ms)
      = ([0xA] @ lit ''Memories:'' @ [0xA] @ pre)
          @ (lit ''- ['' @ m_topic m @ lit ''] '' @ m_content m)
          @ (post @ [0xA, 0xA] @ lit ''User: '' @ [0x22] @ msg @ [0x22, 0xA])"
    by (simp add: answer_prompt_eq)
  then show ?thesis
    by blast
qed

text \<open>
  Claim C5. The reading phase never throws, whatever reads fail: it passes on exactly
  the memories of the topics whose read returned, in the order of the topics, and a
  topic whose read throws contributes nothing. The reply is asked for with a prompt
  that lists these memories, one line \<open>- [topic] content\<close> for each in this order
  (or says that there are none), before the message of the user, and so is the
  decision. The turn goes on to its last step (store or not) when the two model calls
  return: it prints the text that the model returned for this prompt. A turn that
  throws does so with the error of one of its two model calls, never with that of a
  read.
\<close>

theorem reading_tolerates_failures:
  "reading L W config topics []
     = (Inr (retrieved L W config topics), map LogMemory (map (latest L W config) topics))
   \<and> (\<forall>m. m \<in> set (retrieved L W config topics)
           \<longleftrightarrow> (\<exists>t \<in> set topics. latest L W config t = Some m))
   \<and> (\<forall>t e. getLatestMemory_call W (cfg_MEMORY_VAULT_ADDRESS config) (cfg_USER_ADDRESS config)
               (topicHash (keccak256 L) t) = Inl e
           \<longrightarrow> latest L W config t = None)
   \<and> (generateText W (answer_request config msg (retrieved L W config topics)) = Inr reply
        \<and> decideMemory L W config msg (retrieved L W config topics) = (Inr d, tr)
        \<longrightarrow> turn L W config msg
            = (Inr (),
               map LogMemory (map (latest L W config) topics)
                 @ [LogMemories (retrieved L W config topics),
                    ModelCall (answer_request config msg (retrieved L W config topics)),
                    LogReply reply]
                 @ tr @ snd (writing L W config d)))
   \<and> (\<forall>e. fst (turn L W config msg) = Inl e
           \<longrightarrow> generateText W (answer_request config msg (retrieved L W config topics)) = Inl e
               \<or> generateText W (decide_request config msg (retrieved L W config topics)) = Inl e)
   \<and> rq_prompt (answer_request config msg (retrieved L W config topics))
       = [0xA] @ lit ''Memories:'' @ [0xA]
           @ (if retrieved L W config topics = [] then lit ''No memories stored.''
              else join [0xA]
                     (map (\<lambda>m. lit ''- ['' @ m_topic m @ lit ''] '' @ m_content m)
                        (retrieved L W config topics)))
           @ [0xA, 0xA] @ lit ''User: '' @ [0x22] @ msg @ [0x22, 0xA]
   \<and> rq_prompt (decide_request config msg (retrieved L W config topics))
       = [0xA] @ lit ''Memories:'' @ [0xA]
           @ (if retrieved L W config topics = [] then lit ''No existing memories.''
              else join [0xA]
                     (map (\<lambda>m. lit ''- ['' @ m_topic m @ lit ''] '' @ m_content m)
                        (retrieved L W config topics)))
           @ [0xA, 0xA] @ lit ''User: '' @ [0x22] @ msg @ [0x22, 0xA]
   \<and> (\<forall>t m. t \<in> set topics \<and> latest L W config t = Some m
           \<longrightarrow> (\<exists>pre post. rq_prompt (answer_request config msg (retrieved L W config topics))
                   = pre @ (lit ''- ['' @ t @ lit ''] '' @ m_content m) @ post))"
proof (intro conjI allI impI)
  show "reading L W config topics []
     = (Inr (retrieved L W config topics), map LogMemory (map (latest L W config) topics))"
    by (simp add: reading_eq)
next
  fix m
  show "m \<in> set (retrieved L W config topics)
           \<longleftrightarrow> (\<exists>t \<in> set topics. latest L W config t = Some m)"
    by (rule retrieved_iff)
next
  fix t e
  assume "getLatestMemory_call W (cfg_MEMORY_VAULT_ADDRESS config) (cfg_USER_ADDRESS config)
               (topicHash (keccak256 L) t) = Inl e"
  then show "latest L W config t = None"
    by (simp add: latest_def)
next
  assume "generateText W (answer_request config msg (retrieved L W config topics)) = Inr reply
        \<and> decideMemory L W config msg (retrieved L W config topics) = (Inr d, tr)"
  then show "turn L W config msg
            = (Inr (),
               map LogMemory (map (latest L W config) topics)
                 @ [LogMemories (retrieved L W config topics),
                    ModelCall (answer_request config msg (retrieved L W config topics)),
                    LogReply reply]
                 @ tr @ snd (writing L W config d))"
    by (simp add: turn_completes)
next
  fix e
  assume "fst (turn L W config msg) = Inl e"
  then show "generateText W (answer_request config msg (retrieved L W config topics)) = Inl e
               \<or> generateText W (decide_request config msg (retrieved L W config topics)) = Inl e"
    by (auto simp: turn_Inl_iff)
next
  show "rq_prompt (answer_request config msg (retrieved L W config topics))
       = [0xA] @ lit ''Memories:'' @ [0xA]
           @ (if retrieved L W config topics = [] then lit ''No memories stored.''
              else join [0xA]
                     (map (\<lambda>m. lit ''- ['' @ m_topic m @ lit ''] '' @ m_content m)
                        (retrieved L W config topics)))
           @ [0xA, 0xA] @ lit ''User: '' @ [0x22] @ msg @ [0x22, 0xA]"
    by (rule answer_prompt_eq)
next
  show "rq_prompt (decide_request config msg (retrieved L W config topics))
       = [0xA] @ lit ''Memories:'' @ [0xA]
           @ (if retrieved L W config topics = [] then lit ''No existing memories.''
              else join [0xA]
                     (map (\<lambda>m. lit ''- ['' @ m_topic m @ lit ''] '' @ m_content m)
                        (retrieved L W config topics)))
           @ [0xA, 0xA] @ lit ''User: '' @ [0x22] @ msg @ [0x22, 0xA]"
    by (rule decide_prompt_eq)
next
  fix t m
  assume a: "t \<in> set topics \<and> latest L W config t = Some m"
  then have "m \<in> set (retrieved L W config topics)"
    by (auto simp: retrieved_iff)
  moreover from a have "m_topic m = t"
    using latest_topic by blast
  ultimately show "\<exists>pre post. rq_prompt (answer_request config msg (retrieved L W config topics))
                   = pre @ (lit ''- ['' @ t @ lit ''] '' @ m_content m) @ post"
    using answer_prompt_mentions [of m "retrieved L W config topics" config msg] by simp
qed

lemma toy_topic_hashes:
  "topicHash (keccak256 toy_libs) (lit ''identity_profile'') = 16"
  "topicHash (keccak256 toy_libs) (lit ''preferences'') = 11"
  "topicHash (keccak256 toy_libs) (lit ''risk_profile'') = 12"
proof -
  have "list_all isAscii (lit ''identity_profile'')" "list_all isAscii (lit ''preferences'')"
    "list_all isAscii (lit ''risk_profile'')"
    by (simp_all add: lit_def isAscii_def)
  then show "topicHash (keccak256 toy_libs) (lit ''identity_profile'') = 16"
    "topicHash (keccak256 toy_libs) (lit ''preferences'') = 11"
    "topicHash (keccak256 toy_libs) (lit ''risk_profile'') = 12"
    by (simp_all add: topicHash_def toy_libs_def stringToBytes_ascii) (simp_all add: lit_def)
qed

lemma partial_latest:
  "latest toy_libs partial_world sample_config (lit ''identity_profile'')
     = Some \<lparr> m_topic = lit ''identity_profile'', m_content = lit ''fact'', m_timestamp = 7,
              m_writer = lit ''0xw'' \<rparr>"
  "latest toy_libs partial_world sample_config (lit ''preferences'') = None"
  "latest toy_libs partial_world sample_config (lit ''risk_profile'')
     = Some \<lparr> m_topic = lit ''risk_profile'', m_content = lit ''fact'', m_timestamp = 7,
              m_writer = lit ''0xw'' \<rparr>"
  by (simp_all add: latest_def toy_topic_hashes partial_world_def)

lemma partial_retrieved:
  "retrieved toy_libs partial_world sample_config topics
     = [\<lparr> m_topic = lit ''identity_profile'', m_content = lit ''fact'', m_timestamp = 7,
           m_writer = lit ''0xw'' \<rparr>,
        \<lparr> m_topic = lit ''risk_profile'', m_content = lit ''fact'', m_timestamp = 7,
           m_writer = lit ''0xw'' \<rparr>]"
  by (simp add: retrieved_def topics_def map_filter_simps partial_latest)

lemma partial_answer: "generateText partial_world (answer_request sample_config msg ms) = Inr (lit ''ok'')"
  by (simp add: partial_world_def answer_request_def Let_def)

lemma partial_decideMemory:
  "decideMemory toy_libs partial_world sample_config msg ms
     = (Inr fail_safe, [ModelCall (decide_request sample_config msg ms), LogParseError])"
proof -
  have "generateText partial_world (decide_request sample_config msg ms) = Inr (lit ''{}'')"
    by (simp add: partial_world_def decide_request_def Let_def prompts_differ)
  then show ?thesis
    by (simp add: decideMemory_on_text toy_libs_def MemoryDecisionSchema_parse_def)
qed

text \<open>
  An instance, the scenario of the specification: the read of \<open>preferences\<close> fails,
  the two other reads return. The prompt of the reply lists the two memories, the reply
  of the model is printed, and the turn ends with its decision not to store.
\<close>

theorem reading_tolerates_failures_witness:
  "turn toy_libs partial_world sample_config (lit ''hi'')
     = (Inr (),
        [LogMemory (Some \<lparr> m_topic = lit ''identity_profile'', m_content = lit ''fact'',
                           m_timestamp = 7, m_writer = lit ''0xw'' \<rparr>),
         LogMemory None,
         LogMemory (Some \<lparr> m_topic = lit ''risk_profile'', m_content = lit ''fact'',
                           m_timestamp = 7, m_writer = lit ''0xw'' \<rparr>),
         LogMemories (retrieved toy_libs partial_world sample_config topics),
         ModelCall (answer_request sample_config (lit ''hi'')
                      (retrieved toy_libs partial_world sample_config topics)),
         LogReply (lit ''ok''),
         ModelCall (decide_request sample_config (lit ''hi'')
                      (retrieved toy_libs partial_world sample_config topics)),
         LogParseError, LogNoStore])
   \<and> retrieved toy_libs partial_world sample_config topics
     = [\<lparr> m_topic = lit ''identity_profile'', m_content = lit ''fact'', m_timestamp = 7,
          m_writer = lit ''0xw'' \<rparr>,
        \<lparr> m_topic = lit ''risk_profile'', m_content = lit ''fact'', m_timestamp = 7,
          m_writer = lit ''0xw'' \<rparr>]
   \<and> rq_prompt (answer_request sample_config (lit ''hi'')
                  (retrieved toy_libs partial_world sample_config topics))
     = [0xA] @ lit ''Memories:'' @ [0xA] @ lit ''- [identity_profile] fact'' @ [0xA]
         @ lit ''- [risk_profile] fact'' @ [0xA, 0xA] @ lit ''User: '' @ [0x22] @ lit ''hi''
         @ [0x22, 0xA]"
proof (intro conjI)
  note T = reading_tolerates_failures [of toy_libs partial_world sample_config "lit ''hi''"
        "lit ''ok''" fail_safe
        "[ModelCall (decide_request sample_config (lit ''hi'')
                          (retrieved toy_libs partial_world sample_config topics)), LogParseError]"]
  have "turn toy_libs partial_world sample_config (lit ''hi'')
     = (Inr (),
        map LogMemory (map (latest toy_libs partial_world sample_config) topics)
          @ [LogMemories (retrieved toy_libs partial_world sample_config topics),
             ModelCall (answer_request sample_config (lit ''hi'')
                          (retrieved toy_libs partial_world sample_config topics)),
             LogReply (lit ''ok'')]
          @ [ModelCall (decide_request sample_config (lit ''hi'')
                          (retrieved toy_libs partial_world sample_config topics)), LogParseError]
          @ snd (writing toy_libs partial_world sample_config fail_safe))"
    using T partial_answer partial_decideMemory
    by blast
  moreover have "map (latest toy_libs partial_world sample_config) topics
     = [Some \<lparr> m_topic = lit ''identity_profile'', m_content = lit ''fact'',
                           m_timestamp = 7, m_writer = lit ''0xw'' \<rparr>, None,
        Some \<lparr> m_topic = lit ''risk_profile'', m_content = lit ''fact'',
                           m_timestamp = 7, m_writer = lit ''0xw'' \<rparr>]"
    by (simp add: topics_def partial_latest)
  moreover have "snd (writing toy_libs partial_world sample_config fail_safe) = [LogNoStore]"
    by (simp add: writing_eq actionable_def fail_safe_def)
  ultimately show "turn toy_libs partial_world sample_config (lit ''hi'')
     = (Inr (),
        [LogMemory (Some \<lparr> m_topic = lit ''identity_profile'', m_content = lit ''fact'',
                           m_timestamp = 7, m_writer = lit ''0xw'' \<rparr>),
         LogMemory None,
         LogMemory (Some \<lparr> m_topic = lit ''risk_profile'', m_content = lit ''fact'',
                           m_timestamp = 7, m_writer = lit ''0xw'' \<rparr>),
         LogMemories (retrieved toy_libs partial_world sample_config topics),
         ModelCall (answer_request sample_config (lit ''hi'')
                      (retrieved toy_libs partial_world sample_config topics)),
         LogReply (lit ''ok''),
         ModelCall (decide_request sample_config (lit ''hi'')
                      (retrieved toy_libs partial_world sample_config topics)),
         LogParseError, LogNoStore])"
    by simp
  show "retrieved toy_libs partial_world sample_config topics
     = [\<lparr> m_topic = lit ''identity_profile'', m_content = lit ''fact'', m_timestamp = 7,
          m_writer = lit ''0xw'' \<rparr>,
        \<lparr> m_topic = lit ''risk_profile'', m_content = lit ''fact'', m_timestamp = 7,
          m_writer = lit ''0xw'' \<rparr>]"
    by (rule partial_retrieved)
  have "rq_prompt (answer_request sample_config (lit ''hi'')
                  (retrieved toy_libs partial_world sample_config topics))
       = [0xA] @ lit ''Memories:'' @ [0xA]
           @ (if retrieved toy_libs partial_world sample_config topics = []
              then lit ''No memories stored.''
              else join [0xA]
                     (map (\<lambda>m. lit ''- ['' @ m_topic m @ lit ''] '' @ m_content m)
                        (retrieved toy_libs partial_world sample_config topics)))
           @ [0xA, 0xA] @ lit ''User: '' @ [0x22] @ lit ''hi'' @ [0x22, 0xA]"
    using T by blast
  then show "rq_prompt (answer_request sample_config (lit ''hi'')
                  (retrieved toy_libs partial_world sample_config topics))
     = [0xA] @ lit ''Memories:'' @ [0xA] @ lit ''- [identity_profile] fact'' @ [0xA]
         @ lit ''- [risk_profile] fact'' @ [0xA, 0xA] @ lit ''User: '' @ [0x22] @ lit ''hi''
         @ [0x22, 0xA]"
    by (simp add: partial_retrieved lit_def)
qed

lemma main_loop_step:
  "fst (turn L W config msg) = Inr u
   \<Longrightarrow> main_loop L config ((msg, W) # rest)
       = (fst (main_loop L config rest), snd (turn L W config msg) @ snd (main_loop L config rest))"
  by (cases "turn L W config msg") (simp split: prod.splits)

lemma turn_store_fails:
  assumes answer: "generateText W (answer_request config msg (retrieved L W config topics)) = Inr reply"
    and returned: "generateText W (decide_request config msg (retrieved L W config topics)) = Inr text"
    and parsed: "JSON_parse L text = Inr v" "MemoryDecisionSchema_parse v = Inr d"
    and d: "actionable d"
    and rejected: "storeMemoryFor_call W (cfg_MEMORY_VAULT_ADDRESS config) (cfg_USER_ADDRESS config)
          (topicHash (keccak256 L) (the (d_topic d))) (the (d_summary d)) = Inl err"
  shows "turn L W config msg
     = (Inr (),
        map LogMemory (map (latest L W config) topics)
          @ [LogMemories (retrieved L W config topics),
             ModelCall (answer_request config msg (retrieved L W config topics)),
             LogReply reply,
             ModelCall (decide_request config msg (retrieved L W config topics)),
             LogStoring (the (d_topic d)),
             StoreCall (cfg_MEMORY_VAULT_ADDRESS config) (cfg_USER_ADDRESS config)
               (topicHash (keccak256 L) (the (d_topic d))) (the (d_summary d)),
             LogStoreFailed err])"
proof -
  have "decideMemory L W config msg (retrieved L W config topics)
      = (Inr d, [ModelCall (decide_request config msg (retrieved L W config topics))])"
    using parsed by (simp add: decideMemory_on_text [OF returned])
  then show ?thesis
    using answer d rejected by (simp add: turn_completes writing_eq)
qed

text \<open>
  Claim C6. A turn whose store transaction fails submits this transaction once, prints
  the error after it and completes without throwing: its events are the reading, the
  reply, the request of the decision, the notice of storing, the one transaction and
  the error, in this order, and nothing after. The last step of a turn never throws,
  whatever the ledger answers, so a turn whose two model calls return completes, and
  after this turn the loop goes on with the next line of input.
\<close>

theorem write_failure_reported:
  "(generateText W (answer_request config msg (retrieved L W config topics)) = Inr reply
     \<and> generateText W (decide_request config msg (retrieved L W config topics)) = Inr text
     \<and> JSON_parse L text = Inr v \<and> MemoryDecisionSchema_parse v = Inr d \<and> actionable d
     \<and> storeMemoryFor_call W (cfg_MEMORY_VAULT_ADDRESS config) (cfg_USER_ADDRESS config)
          (topicHash (keccak256 L) (the (d_topic d))) (the (d_summary d)) = Inl err
     \<longrightarrow> turn L W config msg
         = (Inr (),
            map LogMemory (map (latest L W config) topics)
              @ [LogMemories (retrieved L W config topics),
                 ModelCall (answer_request config msg (retrieved L W config topics)),
                 LogReply reply,
                 ModelCall (decide_request config msg (retrieved L W config topics)),
                 LogStoring (the (d_topic d)),
                 StoreCall (cfg_MEMORY_VAULT_ADDRESS config) (cfg_USER_ADDRESS config)
                   (topicHash (keccak256 L) (the (d_topic d))) (the (d_summary d)),
                 LogStoreFailed err])
       \<and> store_calls (snd (turn L W config msg))
         = [StoreCall (cfg_MEMORY_VAULT_ADDRESS config) (cfg_USER_ADDRESS config)
              (topicHash (keccak256 L) (the (d_topic d))) (the (d_summary d))]
       \<and> main_loop L config ((msg, W) # rest)
         = (fst (main_loop L config rest),
            snd (turn L W config msg) @ snd (main_loop L config rest)))
   \<and> (actionable d
     \<and> storeMemoryFor_call W (cfg_MEMORY_VAULT_ADDRESS config) (cfg_USER_ADDRESS config)
          (topicHash (keccak256 L) (the (d_topic d))) (the (d_summary d)) = Inl err
     \<longrightarrow> writing L W config d
         = (Inr (),
            [LogStoring (the (d_topic d)),
             StoreCall (cfg_MEMORY_VAULT_ADDRESS config) (cfg_USER_ADDRESS config)
               (topicHash (keccak256 L) (the (d_topic d))) (the (d_summary d)),
             LogStoreFailed err]))
   \<and> fst (writing L W config d) = Inr ()
   \<and> (generateText W (answer_request config msg (retrieved L W config topics)) = Inr reply
        \<and> decideMemory L W config msg (retrieved L W config topics) = (Inr d, tr)
        \<longrightarrow> fst (turn L W config msg) = Inr ())
   \<and> (fst (turn L W config msg) = Inr ()
        \<longrightarrow> main_loop L config ((msg, W) # rest)
            = (fst (main_loop L config rest),
               snd (turn L W config msg) @ snd (main_loop L config rest)))"
proof (intro conjI impI)
  assume a: "generateText W (answer_request config msg (retrieved L W config topics)) = Inr reply
     \<and> generateText W (decide_request config msg (retrieved L W config topics)) = Inr text
     \<and> JSON_parse L text = Inr v \<and> MemoryDecisionSchema_parse v = Inr d \<and> actionable d
     \<and> storeMemoryFor_call W (cfg_MEMORY_VAULT_ADDRESS config) (cfg_USER_ADDRESS config)
          (topicHash (keccak256 L) (the (d_topic d))) (the (d_summary d)) = Inl err"
  then show t: "turn L W config msg
         = (Inr (),
            map LogMemory (map (latest L W config) topics)
              @ [LogMemories (retrieved L W config topics),
                 ModelCall (answer_request config msg (retrieved L W config topics)),
                 LogReply reply,
                 ModelCall (decide_request config msg (retrieved L W config topics)),
                 LogStoring (the (d_topic d)),
                 StoreCall (cfg_MEMORY_VAULT_ADDRESS config) (cfg_USER_ADDRESS config)
                   (topicHash (keccak256 L) (the (d_topic d))) (the (d_summary d)),
                 LogStoreFailed err])"
    by (simp add: turn_store_fails)
  then show "store_calls (snd (turn L W config msg))
         = [StoreCall (cfg_MEMORY_VAULT_ADDRESS config) (cfg_USER_ADDRESS config)
              (topicHash (keccak256 L) (the (d_topic d))) (the (d_summary d))]"
    by (simp add: store_calls_def)
  from t have "fst (turn L W config msg) = Inr ()"
    by simp
  then show "main_loop L config ((msg, W) # rest)
         = (fst (main_loop L config rest),
            snd (turn L W config msg) @ snd (main_loop L config rest))"
    by (rule main_loop_step)
next
  assume "actionable d
     \<and> storeMemoryFor_call W (cfg_MEMORY_VAULT_ADDRESS config) (cfg_USER_ADDRESS config)
          (topicHash (keccak256 L) (the (d_topic d))) (the (d_summary d)) = Inl err"
  then show "writing L W config d
         = (Inr (),
            [LogStoring (the (d_topic d)),
             StoreCall (cfg_MEMORY_VAULT_ADDRESS config) (cfg_USER_ADDRESS config)
               (topicHash (keccak256 L) (the (d_topic d))) (the (d_summary d)),
             LogStoreFailed err])"
    by (simp add: writing_eq)
next
  show "fst (writing L W config d) = Inr ()"
    by (simp add: writing_eq)
next
  assume "generateText W (answer_request config msg (retrieved L W config topics)) = Inr reply
        \<and> decideMemory L W config msg (retrieved L W config topics) = (Inr d, tr)"
  then show "fst (turn L W config msg) = Inr ()"
    by (simp add: turn_completes)
next
  assume "fst (turn L W config msg) = Inr ()"
  then show "main_loop L config ((msg, W) # rest)
            = (fst (main_loop L config rest),
               snd (turn L W config msg) @ snd (main_loop L config rest))"
    by (rule main_loop_step)
qed

lemma alex_rejecting_latest: "map (latest toy_libs alex_world_rejecting sample_config) topics = [None, None, None]"
  by (simp add: topics_def latest_def alex_world_rejecting_def alex_world_def offline_def)

lemma alex_rejecting_retrieved: "retrieved toy_libs alex_world_rejecting sample_config topics = []"
  by (simp add: retrieved_def topics_def map_filter_simps latest_def alex_world_rejecting_def
      alex_world_def offline_def)

lemma alex_parse:
  "JSON_parse toy_libs alex_text
     = Inr (JObj [(lit ''should_store'', JBool True), (lit ''topic'', JStr (lit ''identity_profile'')),
                  (lit ''summary'', JStr (lit ''User's name is Alex''))])"
  by (simp add: toy_libs_def alex_text_not_empty_object)

text \<open>
  An instance: the ledger rejects the transaction of the first turn. The turn submits
  it once, prints the failure and completes, and the loop runs the second turn and then
  waits for input.
\<close>

theorem write_failure_reported_witness:
  "turn toy_libs alex_world_rejecting sample_config (lit ''My name is Alex'')
     = (Inr (),
        [LogMemory None, LogMemory None, LogMemory None, LogMemories [],
         ModelCall (answer_request sample_config (lit ''My name is Alex'') []),
         LogReply (lit ''Nice to meet you, Alex.''),
         ModelCall (decide_request sample_config (lit ''My name is Alex'') []),
         LogStoring (lit ''identity_profile''),
         StoreCall (Some (lit ''0xvault'')) (Some (lit ''0xuser''))
           (topicHash (keccak256 toy_libs) (lit ''identity_profile'')) (lit ''User's name is Alex''),
         LogStoreFailed (Error ContractRevert (lit ''reverted''))])
   \<and> main_loop toy_libs sample_config
         [(lit ''My name is Alex'', alex_world_rejecting), (lit ''hi'', partial_world)]
       = (AwaitingInput,
          snd (turn toy_libs alex_world_rejecting sample_config (lit ''My name is Alex''))
            @ snd (turn toy_libs partial_world sample_config (lit ''hi'')))"
proof -
  note T = write_failure_reported [of alex_world_rejecting sample_config
      "lit ''My name is Alex''" toy_libs "lit ''Nice to meet you, Alex.''" alex_text
      "JObj [(lit ''should_store'', JBool True), (lit ''topic'', JStr (lit ''identity_profile'')),
             (lit ''summary'', JStr (lit ''User's name is Alex''))]"
      alex_decision "Error ContractRevert (lit ''reverted'')" "[(lit ''hi'', partial_world)]"]
  have returned: "generateText alex_world_rejecting (decide_request sample_config (lit ''My name is Alex'')
      (retrieved toy_libs alex_world_rejecting sample_config topics)) = Inr alex_text"
    using alex_decide_text by (simp add: alex_world_rejecting_def)
  have rejected: "storeMemoryFor_call alex_world_rejecting (cfg_MEMORY_VAULT_ADDRESS sample_config)
      (cfg_USER_ADDRESS sample_config)
      (topicHash (keccak256 toy_libs) (the (d_topic alex_decision))) (the (d_summary alex_decision))
    = Inl (Error ContractRevert (lit ''reverted''))"
    by (simp add: alex_world_rejecting_def)
  have hyps: "generateText alex_world_rejecting (answer_request sample_config (lit ''My name is Alex'')
        (retrieved toy_libs alex_world_rejecting sample_config topics))
       = Inr (lit ''Nice to meet you, Alex.'')
     \<and> generateText alex_world_rejecting (decide_request sample_config (lit ''My name is Alex'')
        (retrieved toy_libs alex_world_rejecting sample_config topics)) = Inr alex_text
     \<and> JSON_parse toy_libs alex_text
       = Inr (JObj [(lit ''should_store'', JBool True), (lit ''topic'', JStr (lit ''identity_profile'')),
                    (lit ''summary'', JStr (lit ''User's name is Alex''))])
     \<and> MemoryDecisionSchema_parse
         (JObj [(lit ''should_store'', JBool True), (lit ''topic'', JStr (lit ''identity_profile'')),
                (lit ''summary'', JStr (lit ''User's name is Alex''))]) = Inr alex_decision
     \<and> actionable alex_decision
     \<and> storeMemoryFor_call alex_world_rejecting (cfg_MEMORY_VAULT_ADDRESS sample_config)
          (cfg_USER_ADDRESS sample_config)
          (topicHash (keccak256 toy_libs) (the (d_topic alex_decision)))
          (the (d_summary alex_decision))
       = Inl (Error ContractRevert (lit ''reverted''))"
    using alex_rejecting_answer returned alex_parse alex_schema alex_actionable rejected by blast
  have t1: "turn toy_libs alex_world_rejecting sample_config (lit ''My name is Alex'')
     = (Inr (),
        map LogMemory (map (latest toy_libs alex_world_rejecting sample_config) topics)
          @ [LogMemories (retrieved toy_libs alex_world_rejecting sample_config topics),
             ModelCall (answer_request sample_config (lit ''My name is Alex'')
                          (retrieved toy_libs alex_world_rejecting sample_config topics)),
             LogReply (lit ''Nice to meet you, Alex.''),
             ModelCall (decide_request sample_config (lit ''My name is Alex'')
                          (retrieved toy_libs alex_world_rejecting sample_config topics)),
             LogStoring (the (d_topic alex_decision)),
             StoreCall (cfg_MEMORY_VAULT_ADDRESS sample_config) (cfg_USER_ADDRESS sample_config)
               (topicHash (keccak256 toy_libs) (the (d_topic alex_decision)))
               (the (d_summary alex_decision)),
             LogStoreFailed (Error ContractRevert (lit ''reverted''))])"
    using T hyps by blast
  have step: "main_loop toy_libs sample_config
         [(lit ''My name is Alex'', alex_world_rejecting), (lit ''hi'', partial_world)]
       = (fst (main_loop toy_libs sample_config [(lit ''hi'', partial_world)]),
          snd (turn toy_libs alex_world_rejecting sample_config (lit ''My name is Alex''))
            @ snd (main_loop toy_libs sample_config [(lit ''hi'', partial_world)]))"
    using T hyps by blast
  have t2: "fst (turn toy_libs partial_world sample_config (lit ''hi'')) = Inr ()"
    using partial_answer partial_decideMemory by (simp add: turn_completes)
  have "main_loop toy_libs sample_config [(lit ''hi'', partial_world)]
          = (AwaitingInput, snd (turn toy_libs partial_world sample_config (lit ''hi'')))"
    using main_loop_step [OF t2, of "[]"] by simp
  with step have loop: "main_loop toy_libs sample_config
         [(lit ''My name is Alex'', alex_world_rejecting), (lit ''hi'', partial_world)]
       = (AwaitingInput,
          snd (turn toy_libs alex_world_rejecting sample_config (lit ''My name is Alex''))
            @ snd (turn toy_libs partial_world sample_config (lit ''hi'')))"
    by simp
  have sel: "cfg_MEMORY_VAULT_ADDRESS sample_config = Some (lit ''0xvault'')"
    "cfg_USER_ADDRESS sample_config = Some (lit ''0xuser'')"
    "the (d_topic alex_decision) = lit ''identity_profile''"
    "the (d_summary alex_decision) = lit ''User's name is Alex''"
    by (simp_all add: sample_config_def alex_decision_def)
  from t1 have "turn toy_libs alex_world_rejecting sample_config (lit ''My name is Alex'')
     = (Inr (),
        [LogMemory None, LogMemory None, LogMemory None, LogMemories [],
         ModelCall (answer_request sample_config (lit ''My name is Alex'') []),
         LogReply (lit ''Nice to meet you, Alex.''),
         ModelCall (decide_request sample_config (lit ''My name is Alex'') []),
         LogStoring (lit ''identity_profile''),
         StoreCall (Some (lit ''0xvault'')) (Some (lit ''0xuser''))
           (topicHash (keccak256 toy_libs) (lit ''identity_profile'')) (lit ''User's name is Alex''),
         LogStoreFailed (Error ContractRevert (lit ''reverted''))])"
    by (simp add: alex_rejecting_latest alex_rejecting_retrieved sel)
  with loop show ?thesis
    by blast
qed

section \<open>Properties of agent-2\<close>

lemma fetch_records_eq:
  "snd (fetch_records W config t h i count results)
     = results @ map (\<lambda>i. the (record_at W config t h i))
                   (takeWhile (\<lambda>i. record_at W config t h i \<noteq> None) [i..<count])"
proof (induction W config t h i count results rule: fetch_records.induct)
  case (1 W config topic hash i count results)
  show ?case
  proof (cases "i < count")
    case False
    then show ?thesis
      by (simp add: fetch_records.simps [of W config topic hash i count results])
  next
    case True
    then have upt: "[i..<count] = i # [Suc i..<count]"
      by (simp add: upt_conv_Cons)
    show ?thesis
    proof (cases "getMemory_call W (cfg2_MEMORY_VAULT_ADDRESS config) (cfg2_USER_ADDRESS config)
                    hash i")
      case (Inl e)
      with True show ?thesis
        by (simp add: fetch_records.simps [of W config topic hash i count results] upt
            record_at_def)
    next
      case (Inr mem)
      with True "1.IH" [OF True Inr] show ?thesis
        by (simp add: fetch_records.simps [of W config topic hash i count results] upt
            record_at_def)
    qed
  qed
qed

lemma fetchTopics_eq:
  "fetchTopics L W config ts results = results @ concat (map (read_prefix L W config) ts)"
proof (induction ts arbitrary: results)
  case Nil
  then show ?case by simp
next
  case (Cons t ts)
  show ?case
  proof (cases "getMemoryCount_call W (cfg2_MEMORY_VAULT_ADDRESS config)
                  (cfg2_USER_ADDRESS config) (topicHash (keccak256 L) t)")
    case (Inl e)
    then show ?thesis
      by (simp add: Cons.IH read_prefix_def)
  next
    case (Inr count)
    obtain r results' where fr:
      "fetch_records W config t (topicHash (keccak256 L) t) 0 count results = (r, results')"
      by (cases "fetch_records W config t (topicHash (keccak256 L) t) 0 count results")
    then have "results' = results @ read_prefix L W config t"
      using fetch_records_eq [of W config t "topicHash (keccak256 L) t" 0 count results] Inr
      by (simp add: read_prefix_def)
    with Inr fr show ?thesis
      by (cases r) (simp_all add: Cons.IH)
  qed
qed

lemma takeWhile_all: "\<not> list_ex (\<lambda>i. \<not> P i) xs \<Longrightarrow> takeWhile P xs = xs"
  by (induction xs) simp_all

lemma map_filter_all:
  "\<not> list_ex (\<lambda>i. f i = None) xs \<Longrightarrow> List.map_filter f xs = map (\<lambda>i. the (f i)) xs"
  by (induction xs) (auto simp: map_filter_simps)

lemma read_prefix_claimed:
  assumes "\<not> fails_midway L W config t"
  shows "read_prefix L W config t
           = (if topic_fails L W config t then [] else all_records L W config t)"
proof (cases "getMemoryCount_call W (cfg2_MEMORY_VAULT_ADDRESS config)
                (cfg2_USER_ADDRESS config) (topicHash (keccak256 L) t)")
  case (Inl e)
  then show ?thesis
    by (simp add: read_prefix_def topic_fails_def)
next
  case (Inr count)
  let ?rec = "record_at W config t (topicHash (keccak256 L) t)"
  show ?thesis
  proof (cases "list_ex (\<lambda>i. ?rec i = None) [0..<count]")
    case False
    then have tw: "takeWhile (\<lambda>i. ?rec i \<noteq> None) [0..<count] = [0..<count]"
      by (simp add: takeWhile_all)
    have rp: "read_prefix L W config t = map (\<lambda>i. the (?rec i)) [0..<count]"
      by (simp only: read_prefix_def Inr sum.case tw)
    have ar: "all_records L W config t = map (\<lambda>i. the (?rec i)) [0..<count]"
      by (simp only: all_records_def Inr sum.case map_filter_all [OF False])
    have tf: "topic_fails L W config t \<longleftrightarrow> count = 0"
      using False by (simp only: topic_fails_def Inr sum.case) simp
    show ?thesis
      by (cases "count = 0") (simp_all add: rp ar tf)
  next
    case True
    then have pos: "0 < count"
      by (cases count) auto
    from True assms Inr have "?rec 0 = None"
      by (simp add: fails_midway_def)
    with pos have tw: "takeWhile (\<lambda>i. ?rec i \<noteq> None) [0..<count] = []"
      by (simp add: upt_conv_Cons)
    have rp: "read_prefix L W config t = []"
      by (simp only: read_prefix_def Inr sum.case tw list.map)
    have tf: "topic_fails L W config t"
      using True by (simp only: topic_fails_def Inr sum.case) simp
    show ?thesis
      by (simp add: rp tf)
  qed
qed

lemma concat_claimed:
  "list_all (\<lambda>t. \<not> fails_midway L W config t) ts
   \<Longrightarrow> concat (map (read_prefix L W config) ts) = claimed_scan L W config ts"
  by (induction ts) (simp_all add: claimed_scan_def read_prefix_claimed)

lemma toy_known_hashes:
  "topicHash (keccak256 toy_libs) (lit ''user_identity'') = 13"
  "topicHash (keccak256 toy_libs) (lit ''personal_identity'') = 17"
  "topicHash (keccak256 toy_libs) (lit ''wallet_profile'') = 14"
  "topicHash (keccak256 toy_libs) (lit ''goals'') = 5"
proof -
  have "list_all isAscii (lit ''user_identity'')" "list_all isAscii (lit ''personal_identity'')"
    "list_all isAscii (lit ''wallet_profile'')" "list_all isAscii (lit ''goals'')"
    by (simp_all add: lit_def isAscii_def)
  then show "topicHash (keccak256 toy_libs) (lit ''user_identity'') = 13"
    "topicHash (keccak256 toy_libs) (lit ''personal_identity'') = 17"
    "topicHash (keccak256 toy_libs) (lit ''wallet_profile'') = 14"
    "topicHash (keccak256 toy_libs) (lit ''goals'') = 5"
    by (simp_all add: topicHash_def toy_libs_def stringToBytes_ascii) (simp_all add: lit_def)
qed

lemma upt_0_2: "[0..<2] = [0, Suc 0]"
  by (simp add: numeral_2_eq_2 upt_conv_Cons)

lemma midway_counts:
  "getMemoryCount_call midway_world a u h
     = (if h = 16 then Inr 2 else Inl (Error TransportError (lit ''fetch failed'')))"
  by (simp add: midway_world_def)

lemma midway_records:
  "record_at midway_world sample_config2 t h 0
     = Some \<lparr> m_topic = t, m_content = lit ''fact'', m_timestamp = 7, m_writer = lit ''0xw'' \<rparr>"
  "record_at midway_world sample_config2 t h (Suc 0) = None"
  by (simp_all add: record_at_def midway_world_def)

lemma midway_read_prefix:
  "map (read_prefix toy_libs midway_world sample_config2) knownTopics
     = [[\<lparr> m_topic = lit ''identity_profile'', m_content = lit ''fact'', m_timestamp = 7,
           m_writer = lit ''0xw'' \<rparr>], [], [], [], [], [], []]"
  by (simp add: knownTopics_def read_prefix_def toy_topic_hashes toy_known_hashes midway_counts
      upt_0_2 midway_records)

lemma midway_topic_fails: "list_all (topic_fails toy_libs midway_world sample_config2) knownTopics"
  by (simp add: knownTopics_def topic_fails_def toy_topic_hashes toy_known_hashes midway_counts
      upt_0_2 midway_records)

text \<open>
  Claim C7 as stated fails. In this world every one of the seven topics errors: six at
  the count read, and \<open>identity_profile\<close> at the read of its record 1. The claim gives
  the empty sequence; the scan returns record 0 of \<open>identity_profile\<close>.
\<close>

theorem fetchUserMemories_keeps_partial_topic:
  "list_all (topic_fails toy_libs midway_world sample_config2) knownTopics
   \<and> claimed_scan toy_libs midway_world sample_config2 knownTopics = []
   \<and> fetchUserMemories toy_libs midway_world sample_config2
       = Inr [\<lparr> m_topic = lit ''identity_profile'', m_content = lit ''fact'', m_timestamp = 7,
                m_writer = lit ''0xw'' \<rparr>]"
proof (intro conjI)
  show fails: "list_all (topic_fails toy_libs midway_world sample_config2) knownTopics"
    by (rule midway_topic_fails)
  then have "filter (\<lambda>t. \<not> topic_fails toy_libs midway_world sample_config2 t) knownTopics = []"
    by (simp add: list_all_iff filter_empty_conv)
  then show "claimed_scan toy_libs midway_world sample_config2 knownTopics = []"
    by (simp add: claimed_scan_def)
  show "fetchUserMemories toy_libs midway_world sample_config2
       = Inr [\<lparr> m_topic = lit ''identity_profile'', m_content = lit ''fact'', m_timestamp = 7,
                m_writer = lit ''0xw'' \<rparr>]"
    by (simp add: fetchUserMemories_def fetchTopics_eq midway_read_prefix)
qed

text \<open>
  Claim C7, amended. The scan always completes and never throws. Topic after topic, in
  the order of the catalog, it returns the records of the topic from index 0 up to the
  first index whose read throws: all of them when no read throws, none when the count
  read throws or the count is zero. So when no topic fails midway (after its record 0
  was read), the result is exactly the records, by index, of the topics that neither
  error nor have zero records.
\<close>

theorem fetchUserMemories_prefixes:
  "fetchUserMemories L W config = Inr (concat (map (read_prefix L W config) knownTopics))
   \<and> (list_all (\<lambda>t. \<not> fails_midway L W config t) knownTopics
        \<longrightarrow> fetchUserMemories L W config = Inr (claimed_scan L W config knownTopics))"
  by (simp add: fetchUserMemories_def fetchTopics_eq concat_claimed)

lemma two_records_counts:
  "getMemoryCount_call two_records_world a u h
     = (if h = 16 then Inr 2 else Inl (Error TransportError (lit ''fetch failed'')))"
  by (simp add: two_records_world_def midway_world_def)

lemma two_records_records:
  "record_at two_records_world sample_config2 t h i
     = Some \<lparr> m_topic = t, m_content = lit ''fact'', m_timestamp = 7 + i, m_writer = lit ''0xw'' \<rparr>"
  by (simp add: record_at_def two_records_world_def)

text \<open>
  An instance: \<open>identity_profile\<close> has two records and both are read, the count reads
  of the six other topics throw. The scan returns the two records in index order, which
  is also what the claim gives.
\<close>

theorem fetchUserMemories_prefixes_witness:
  "fetchUserMemories toy_libs two_records_world sample_config2
     = Inr [\<lparr> m_topic = lit ''identity_profile'', m_content = lit ''fact'', m_timestamp = 7,
              m_writer = lit ''0xw'' \<rparr>,
            \<lparr> m_topic = lit ''identity_profile'', m_content = lit ''fact'', m_timestamp = 8,
              m_writer = lit ''0xw'' \<rparr>]
   \<and> claimed_scan toy_libs two_records_world sample_config2 knownTopics
     = [\<lparr> m_topic = lit ''identity_profile'', m_content = lit ''fact'', m_timestamp = 7,
          m_writer = lit ''0xw'' \<rparr>,
        \<lparr> m_topic = lit ''identity_profile'', m_content = lit ''fact'', m_timestamp = 8,
          m_writer = lit ''0xw'' \<rparr>]"
proof -
  note T = fetchUserMemories_prefixes [of toy_libs two_records_world sample_config2]
  have rp: "map (read_prefix toy_libs two_records_world sample_config2) knownTopics
     = [[\<lparr> m_topic = lit ''identity_profile'', m_content = lit ''fact'', m_timestamp = 7,
           m_writer = lit ''0xw'' \<rparr>,
         \<lparr> m_topic = lit ''identity_profile'', m_content = lit ''fact'', m_timestamp = 8,
           m_writer = lit ''0xw'' \<rparr>], [], [], [], [], [], []]"
    by (simp add: knownTopics_def read_prefix_def toy_topic_hashes toy_known_hashes
        two_records_counts upt_0_2 two_records_records)
  have nm: "list_all (\<lambda>t. \<not> fails_midway toy_libs two_records_world sample_config2 t) knownTopics"
    by (simp add: knownTopics_def fails_midway_def toy_topic_hashes toy_known_hashes
        two_records_counts upt_0_2 two_records_records)
  from T rp have a: "fetchUserMemories toy_libs two_records_world sample_config2
     = Inr [\<lparr> m_topic = lit ''identity_profile'', m_content = lit ''fact'', m_timestamp = 7,
              m_writer = lit ''0xw'' \<rparr>,
            \<lparr> m_topic = lit ''identity_profile'', m_content = lit ''fact'', m_timestamp = 8,
              m_writer = lit ''0xw'' \<rparr>]"
    by simp
  from T nm have "fetchUserMemories toy_libs two_records_world sample_config2
     = Inr (claimed_scan toy_libs two_records_world sample_config2 knownTopics)"
    by blast
  with a show ?thesis
    by simp
qed

section \<open>Properties of the HTTP service\<close>

lemma methods_differ:
  "lit ''POST'' \<noteq> lit ''GET''" "lit ''OPTIONS'' \<noteq> lit ''GET''" "lit ''OPTIONS'' \<noteq> lit ''POST''"
  "lit ''DELETE'' \<noteq> lit ''GET''" "lit ''DELETE'' \<noteq> lit ''POST''" "lit ''DELETE'' \<noteq> lit ''OPTIONS''"
  by (simp_all add: lit_def)

lemma fetch_GET:
  "pk (lit ''0x'' @ env_PRIVATE_KEY env) = Inr account \<Longrightarrow> req_method request = lit ''GET''
   \<Longrightarrow> fetch pk L W env request
       = (\<lparr> status = 200,
            headers = [(lit ''Content-Type'', lit ''application/json''),
                       (lit ''Access-Control-Allow-Origin'', lit ''*'')],
            body = Some descriptor \<rparr>, [])"
  by (simp add: fetch_def)

lemma fetch_OPTIONS:
  "pk (lit ''0x'' @ env_PRIVATE_KEY env) = Inr account \<Longrightarrow> req_method request = lit ''OPTIONS''
   \<Longrightarrow> fetch pk L W env request
       = (\<lparr> status = 204,
            headers = [(lit ''Access-Control-Allow-Origin'', lit ''*''),
                       (lit ''Access-Control-Allow-Methods'', lit ''GET, POST, OPTIONS''),
                       (lit ''Access-Control-Allow-Headers'', lit ''Content-Type'')],
            body = None \<rparr>, [])"
  by (simp add: fetch_def methods_differ)

lemma fetch_not_found:
  "pk (lit ''0x'' @ env_PRIVATE_KEY env) = Inr account
   \<Longrightarrow> req_method request \<noteq> lit ''GET'' \<Longrightarrow> req_method request \<noteq> lit ''OPTIONS''
   \<Longrightarrow> \<not> (req_method request = lit ''POST''
          \<and> (req_pathname request = lit ''/store-memory'' \<or> req_pathname request = lit ''/get-memory''))
   \<Longrightarrow> fetch pk L W env request
       = (\<lparr> status = 404, headers = json_headers,
            body = Some (JObj [(lit ''error'', JStr (lit ''Not found''))]) \<rparr>, [])"
  by (auto simp: fetch_def)

lemma fetch_bad_key:
  "pk (lit ''0x'' @ env_PRIVATE_KEY env) = Inl err \<Longrightarrow> fetch pk L W env request = worker_error [] err"
  by (simp add: fetch_def)

lemma descriptor_properties:
  "\<exists>kvs tools. descriptor = JObj kvs
     \<and> map_of kvs (lit ''name'') = Some (JStr (lit ''memory-vault-mcp''))
     \<and> map_of kvs (lit ''version'') = Some (JStr (lit ''1.0.0''))
     \<and> map_of kvs (lit ''tools'') = Some (JArr tools) \<and> length tools = 2"
  by (simp add: descriptor_def lit_def)

text \<open>
  Claim C9 as stated fails: a GET request to another path than \<open>/\<close> is answered with
  the service descriptor and status 200, not with 404.
\<close>

theorem fetch_get_any_path:
  "fetch (\<lambda>k. Inr k) toy_libs offline sample_env (bodyless_request (lit ''GET'') (lit ''/nope''))
   = (\<lparr> status = 200,
        headers = [(lit ''Content-Type'', lit ''application/json''),
                   (lit ''Access-Control-Allow-Origin'', lit ''*'')],
        body = Some descriptor \<rparr>, [])"
  by (simp add: fetch_def bodyless_request_def)

text \<open>
  Claim C9, amended. With a signing key that \<open>privateKeyToAccount\<close> accepts: every GET
  request, whatever its path, returns the service descriptor with status 200; every
  OPTIONS request returns the CORS preflight response (status 204, no body); a request
  that is neither GET nor OPTIONS nor a POST to \<open>/store-memory\<close> or \<open>/get-memory\<close>
  returns status 404. With a key that it rejects, every request returns status 500.
\<close>

theorem fetch_routing:
  "(pk (lit ''0x'' @ env_PRIVATE_KEY env) = Inr account \<and> req_method request = lit ''GET''
      \<longrightarrow> fetch pk L W env request
          = (\<lparr> status = 200,
               headers = [(lit ''Content-Type'', lit ''application/json''),
                          (lit ''Access-Control-Allow-Origin'', lit ''*'')],
               body = Some descriptor \<rparr>, []))
   \<and> (pk (lit ''0x'' @ env_PRIVATE_KEY env) = Inr account \<and> req_method request = lit ''OPTIONS''
      \<longrightarrow> fetch pk L W env request
          = (\<lparr> status = 204,
               headers = [(lit ''Access-Control-Allow-Origin'', lit ''*''),
                          (lit ''Access-Control-Allow-Methods'', lit ''GET, POST, OPTIONS''),
                          (lit ''Access-Control-Allow-Headers'', lit ''Content-Type'')],
               body = None \<rparr>, []))
   \<and> (pk (lit ''0x'' @ env_PRIVATE_KEY env) = Inr account
      \<and> req_method request \<noteq> lit ''GET'' \<and> req_method request \<noteq> lit ''OPTIONS''
      \<and> \<not> (req_method request = lit ''POST''
           \<and> (req_pathname request = lit ''/store-memory''
               \<or> req_pathname request = lit ''/get-memory''))
      \<longrightarrow> fetch pk L W env request
          = (\<lparr> status = 404, headers = json_headers,
               body = Some (JObj [(lit ''error'', JStr (lit ''Not found''))]) \<rparr>, []))
   \<and> (pk (lit ''0x'' @ env_PRIVATE_KEY env) = Inl err
      \<longrightarrow> fetch pk L W env request
          = (\<lparr> status = 500, headers = json_headers,
               body = Some (JObj [(lit ''success'', JBool False),
                                  (lit ''error'', JStr (message err))]) \<rparr>,
             [LogWorkerError err]))"
  using fetch_GET [of pk env account request L W] fetch_OPTIONS [of pk env account request L W]
    fetch_not_found [of pk env account request L W] fetch_bad_key [of pk env err L W request]
  by (simp add: worker_error_def)

text \<open>
  Instances: GET \<open>/\<close> gives the descriptor, OPTIONS the preflight response, DELETE
  \<open>/store-memory\<close> status 404, and with a rejected key GET \<open>/\<close> gives status 500.
\<close>

theorem fetch_routing_witness:
  "fetch (\<lambda>k. Inr k) toy_libs offline sample_env (bodyless_request (lit ''GET'') (lit ''/''))
     = (\<lparr> status = 200,
          headers = [(lit ''Content-Type'', lit ''application/json''),
                     (lit ''Access-Control-Allow-Origin'', lit ''*'')],
          body = Some descriptor \<rparr>, [])
   \<and> status (fst (fetch (\<lambda>k. Inr k) toy_libs offline sample_env
                     (bodyless_request (lit ''OPTIONS'') (lit ''/store-memory'')))) = 204
   \<and> fetch (\<lambda>k. Inr k) toy_libs offline sample_env
         (bodyless_request (lit ''DELETE'') (lit ''/store-memory''))
     = (\<lparr> status = 404, headers = json_headers,
          body = Some (JObj [(lit ''error'', JStr (lit ''Not found''))]) \<rparr>, [])
   \<and> status (fst (fetch (\<lambda>k. Inl (Error InvalidKey (lit ''invalid private key''))) toy_libs
                     offline sample_env (bodyless_request (lit ''GET'') (lit ''/'')))) = 500"
  using fetch_routing [of "\<lambda>k. Inr k" sample_env "lit ''0x'' @ env_PRIVATE_KEY sample_env"
      "bodyless_request (lit ''GET'') (lit ''/'')" toy_libs offline]
    fetch_routing [of "\<lambda>k. Inr k" sample_env "lit ''0x'' @ env_PRIVATE_KEY sample_env"
      "bodyless_request (lit ''OPTIONS'') (lit ''/store-memory'')" toy_libs offline]
    fetch_routing [of "\<lambda>k. Inr k" sample_env "lit ''0x'' @ env_PRIVATE_KEY sample_env"
      "bodyless_request (lit ''DELETE'') (lit ''/store-memory'')" toy_libs offline]
    fetch_routing [of "\<lambda>k. Inl (Error InvalidKey (lit ''invalid private key''))" sample_env _
      "bodyless_request (lit ''GET'') (lit ''/'')" toy_libs offline
      "Error InvalidKey (lit ''invalid private key'')"]
  by (simp add: bodyless_request_def methods_differ)

lemma server_abi_lookup: "abi_lookup L server_abi f = Inl (abi_error L server_abi f)"
  by (simp add: abi_lookup_def server_abi_def)

lemma fetch_store_route:
  "pk (lit ''0x'' @ env_PRIVATE_KEY env) = Inr account \<Longrightarrow> req_method request = lit ''POST''
   \<Longrightarrow> req_pathname request = lit ''/store-memory''
   \<Longrightarrow> fetch pk L W env request = store_memory_route L W env request"
  by (simp add: fetch_def methods_differ)

lemma store_memory_route_eq:
  "store_memory_route L W env request
     = (case req_json request of
          Inl error \<Rightarrow> worker_error [] error
        | Inr payload \<Rightarrow>
            if payload = JNull then worker_error [] (null_error L)
            else if list_ex (\<lambda>k. \<not> js_truthy (property payload k)) required_properties
            then (\<lparr> status = 400, headers = json_headers,
                    body = Some (JObj [(lit ''success'', JBool False),
                      (lit ''error'',
                       JStr (lit ''Missing required fields: user_address, topic, content''))]) \<rparr>,
                  [])
            else worker_error [] (abi_error L server_abi (lit ''storeMemoryFor'')))"
proof (cases "req_json request")
  case (Inl error)
  then show ?thesis
    by (simp add: store_memory_route_def)
next
  case (Inr payload)
  then show ?thesis
    by (cases payload)
      (simp_all add: store_memory_route_def Let_def server_abi_lookup required_properties_def)
qed

lemma worker_error_status:
  "status (fst (worker_error tr error)) = 500" "snd (worker_error tr error) = tr @ [LogWorkerError error]"
  by (simp_all add: worker_error_def)

lemma store_memory_route_never_200:
  "status (fst (store_memory_route L W env request)) \<noteq> 200
   \<and> store_calls (snd (store_memory_route L W env request)) = []"
  by (simp add: store_memory_route_eq worker_error_status store_calls_def split: sum.splits)

lemma get_memory_route_never_200: "status (fst (get_memory_route L W env request)) \<noteq> 200"
proof (cases "req_json request")
  case (Inl error)
  then show ?thesis
    by (simp add: get_memory_route_def worker_error_status)
next
  case (Inr payload)
  then show ?thesis
    by (cases payload)
      (simp_all add: get_memory_route_def Let_def server_abi_lookup worker_error_status)
qed

text \<open>
  Claim C8. The first half holds: with a signing key that \<open>privateKeyToAccount\<close>
  accepts, a POST request to \<open>/store-memory\<close> whose body is a JSON value other than
  \<open>null\<close> in which \<open>user_address\<close>, \<open>topic\<close> or \<open>content\<close> is missing (or is a
  value that counts as false) is answered with status 400 and
  \<open>{ success: false, error }\<close>, and nothing is submitted. The second half is what the
  code breaks: a request with the three properties is answered with status 500, because
  the lookup of \<open>storeMemoryFor\<close> in the abi of plain strings throws before anything
  is sent. The body \<open>null\<close> is answered with status 500, too. Whatever the key, the
  body and the ledger, no request to this route is answered with status 200 and none
  submits a transaction.
\<close>

theorem store_memory_outcomes:
  "(pk (lit ''0x'' @ env_PRIVATE_KEY env) = Inr account \<and> req_method request = lit ''POST''
     \<and> req_pathname request = lit ''/store-memory'' \<and> req_json request = Inr payload
     \<and> payload \<noteq> JNull
     \<and> list_ex (\<lambda>k. \<not> js_truthy (property payload k)) required_properties
     \<longrightarrow> fetch pk L W env request
         = (\<lparr> status = 400, headers = json_headers,
              body = Some (JObj [(lit ''success'', JBool False),
                (lit ''error'',
                 JStr (lit ''Missing required fields: user_address, topic, content''))]) \<rparr>,
            []))
   \<and> (pk (lit ''0x'' @ env_PRIVATE_KEY env) = Inr account \<and> req_method request = lit ''POST''
     \<and> req_pathname request = lit ''/store-memory'' \<and> req_json request = Inr payload
     \<and> payload \<noteq> JNull
     \<and> \<not> list_ex (\<lambda>k. \<not> js_truthy (property payload k)) required_properties
     \<longrightarrow> fetch pk L W env request
         = (\<lparr> status = 500, headers = json_headers,
              body = Some (JObj [(lit ''success'', JBool False),
                (lit ''error'', JStr (message (abi_error L server_abi (lit ''storeMemoryFor''))))]) \<rparr>,
            [LogWorkerError (abi_error L server_abi (lit ''storeMemoryFor''))]))
   \<and> (pk (lit ''0x'' @ env_PRIVATE_KEY env) = Inr account \<and> req_method request = lit ''POST''
     \<and> req_pathname request = lit ''/store-memory'' \<and> req_json request = Inr JNull
     \<longrightarrow> fetch pk L W env request
         = (\<lparr> status = 500, headers = json_headers,
              body = Some (JObj [(lit ''success'', JBool False),
                (lit ''error'', JStr (message (null_error L)))]) \<rparr>,
            [LogWorkerError (null_error L)]))
   \<and> (req_method request = lit ''POST'' \<and> req_pathname request = lit ''/store-memory''
     \<longrightarrow> status (fst (fetch pk L W env request)) \<noteq> 200
         \<and> store_calls (snd (fetch pk L W env request)) = [])"
proof (intro conjI impI)
  assume a: "pk (lit ''0x'' @ env_PRIVATE_KEY env) = Inr account \<and> req_method request = lit ''POST''
     \<and> req_pathname request = lit ''/store-memory'' \<and> req_json request = Inr JNull"
  then have "fetch pk L W env request = store_memory_route L W env request"
    by (simp add: fetch_store_route)
  with a show "fetch pk L W env request
         = (\<lparr> status = 500, headers = json_headers,
              body = Some (JObj [(lit ''success'', JBool False),
                (lit ''error'', JStr (message (null_error L)))]) \<rparr>,
            [LogWorkerError (null_error L)])"
    by (simp add: store_memory_route_eq worker_error_def)
next
  assume a: "pk (lit ''0x'' @ env_PRIVATE_KEY env) = Inr account \<and> req_method request = lit ''POST''
     \<and> req_pathname request = lit ''/store-memory'' \<and> req_json request = Inr payload
     \<and> payload \<noteq> JNull
     \<and> list_ex (\<lambda>k. \<not> js_truthy (property payload k)) required_properties"
  then have "fetch pk L W env request = store_memory_route L W env request"
    by (simp add: fetch_store_route)
  with a show "fetch pk L W env request
         = (\<lparr> status = 400, headers = json_headers,
              body = Some (JObj [(lit ''success'', JBool False),
                (lit ''error'',
                 JStr (lit ''Missing required fields: user_address, topic, content''))]) \<rparr>,
            [])"
    by (simp add: store_memory_route_eq)
next
  assume a: "pk (lit ''0x'' @ env_PRIVATE_KEY env) = Inr account \<and> req_method request = lit ''POST''
     \<and> req_pathname request = lit ''/store-memory'' \<and> req_json request = Inr payload
     \<and> payload \<noteq> JNull
     \<and> \<not> list_ex (\<lambda>k. \<not> js_truthy (property payload k)) required_properties"
  then have "fetch pk L W env request = store_memory_route L W env request"
    by (simp add: fetch_store_route)
  with a show "fetch pk L W env request
         = (\<lparr> status = 500, headers = json_headers,
              body = Some (JObj [(lit ''success'', JBool False),
                (lit ''error'', JStr (message (abi_error L server_abi (lit ''storeMemoryFor''))))]) \<rparr>,
            [LogWorkerError (abi_error L server_abi (lit ''storeMemoryFor''))])"
    by (simp add: store_memory_route_eq worker_error_def)
next
  assume a: "req_method request = lit ''POST'' \<and> req_pathname request = lit ''/store-memory''"
  show "status (fst (fetch pk L W env request)) \<noteq> 200"
  proof (cases "pk (lit ''0x'' @ env_PRIVATE_KEY env)")
    case (Inl err)
    then show ?thesis
      by (simp add: fetch_bad_key worker_error_status)
  next
    case (Inr account)
    with a show ?thesis
      using store_memory_route_never_200 [of L W env request]
      by (simp add: fetch_store_route)
  qed
  show "store_calls (snd (fetch pk L W env request)) = []"
  proof (cases "pk (lit ''0x'' @ env_PRIVATE_KEY env)")
    case (Inl err)
    then show ?thesis
      by (simp add: fetch_bad_key worker_error_status store_calls_def)
  next
    case (Inr account)
    with a show ?thesis
      using store_memory_route_never_200 [of L W env request]
      by (simp add: fetch_store_route)
  qed
qed

lemma full_body_properties:
  "property full_body (lit ''user_address'') = Some (JStr (lit ''0xuser''))"
  "property full_body (lit ''topic'') = Some (JStr (lit ''preferences''))"
  "property full_body (lit ''content'') = Some (JStr (lit ''likes tea''))"
  by (simp_all add: property_def full_body_def lit_def)

text \<open>
  Instances. The body has the three properties as strings that are not empty, the key
  is accepted and the ledger would accept the transaction: the handler answers with
  status 500 and the error of the lookup, and submits nothing. And the scenario of the
  specification, a body without \<open>content\<close>: status 400, nothing submitted.
\<close>

theorem store_memory_outcomes_witness:
  "storeMemoryFor_call accepting_world (Some (env_MEMORY_VAULT_ADDRESS sample_env))
       (Some (lit ''0xuser'')) (topicHash (keccak256 toy_libs) (lit ''preferences''))
       (lit ''likes tea'') = Inr (lit ''0xtx'')
   \<and> fetch (\<lambda>k. Inr k) toy_libs accepting_world sample_env (store_request full_body)
     = (\<lparr> status = 500, headers = json_headers,
          body = Some (JObj [(lit ''success'', JBool False),
            (lit ''error'', JStr (lit ''Cannot use 'in' operator''))]) \<rparr>,
        [LogWorkerError (Error TypeError (lit ''Cannot use 'in' operator''))])
   \<and> fetch (\<lambda>k. Inr k) toy_libs accepting_world sample_env
       (store_request (JObj [(lit ''user_address'', JStr (lit ''0xuser'')),
                             (lit ''topic'', JStr (lit ''preferences''))]))
     = (\<lparr> status = 400, headers = json_headers,
          body = Some (JObj [(lit ''success'', JBool False),
            (lit ''error'', JStr (lit ''Missing required fields: user_address, topic, content''))]) \<rparr>,
        [])"
proof (intro conjI)
  show "storeMemoryFor_call accepting_world (Some (env_MEMORY_VAULT_ADDRESS sample_env))
       (Some (lit ''0xuser'')) (topicHash (keccak256 toy_libs) (lit ''preferences''))
       (lit ''likes tea'') = Inr (lit ''0xtx'')"
    by (simp add: accepting_world_def)
next
  have present: "\<not> list_ex (\<lambda>k. \<not> js_truthy (property full_body k)) required_properties"
    by (simp add: required_properties_def full_body_properties) (simp add: lit_def)
  have "full_body \<noteq> JNull"
    by (simp add: full_body_def)
  with present have "fetch (\<lambda>k. Inr k) toy_libs accepting_world sample_env (store_request full_body)
     = (\<lparr> status = 500, headers = json_headers,
          body = Some (JObj [(lit ''success'', JBool False),
            (lit ''error'',
             JStr (message (abi_error toy_libs server_abi (lit ''storeMemoryFor''))))]) \<rparr>,
        [LogWorkerError (abi_error toy_libs server_abi (lit ''storeMemoryFor''))])"
    using store_memory_outcomes [of "\<lambda>k. Inr k" sample_env
        "lit ''0x'' @ env_PRIVATE_KEY sample_env" "store_request full_body" full_body
        toy_libs accepting_world]
    by (simp add: store_request_def)
  then show "fetch (\<lambda>k. Inr k) toy_libs accepting_world sample_env (store_request full_body)
     = (\<lparr> status = 500, headers = json_headers,
          body = Some (JObj [(lit ''success'', JBool False),
            (lit ''error'', JStr (lit ''Cannot use 'in' operator''))]) \<rparr>,
        [LogWorkerError (Error TypeError (lit ''Cannot use 'in' operator''))])"
    by (simp add: toy_libs_def)
next
  let ?payload = "JObj [(lit ''user_address'', JStr (lit ''0xuser'')),
                        (lit ''topic'', JStr (lit ''preferences''))]"
  have "list_ex (\<lambda>k. \<not> js_truthy (property ?payload k)) required_properties"
    by (simp add: required_properties_def property_def lit_def)
  then show "fetch (\<lambda>k. Inr k) toy_libs accepting_world sample_env (store_request ?payload)
     = (\<lparr> status = 400, headers = json_headers,
          body = Some (JObj [(lit ''success'', JBool False),
            (lit ''error'', JStr (lit ''Missing required fields: user_address, topic, content''))]) \<rparr>,
        [])"
    using store_memory_outcomes [of "\<lambda>k. Inr k" sample_env
        "lit ''0x'' @ env_PRIVATE_KEY sample_env" "store_request ?payload" ?payload
        toy_libs accepting_world]
    by (simp add: store_request_def)
qed

end
